theory Spec2Isabelle
  imports Main
begin

section \<open>Values, requests and collaborators\<close>

text \<open>
  The client of \<^verbatim>\<open>noko_client/client.py\<close> builds one HTTP request per call and hands it
  to \<^verbatim>\<open>BaseClient.fetch_json\<close>. A request is modelled by the four arguments that
  \<^verbatim>\<open>fetch_json\<close> receives; the requests handed over so far form a log, oldest first.
  A raised exception is the \<open>Inl\<close> of a sum.
\<close>

datatype error = ValidationError string | TransportError string

record datetime =
  year :: nat
  month :: nat
  day :: nat
  hour :: nat
  minute :: nat
  second :: nat

datatype pyval =
    PNone
  | PBool bool
  | PInt int
  | PStr string
  | PDateTime datetime
  | PList "pyval list"
  | PDict "(string \<times> pyval) list"

type_synonym pydict = "(string \<times> pyval) list"

text \<open>
  The annotation \<^verbatim>\<open>str | int\<close> of a single identifier, and
  \<^verbatim>\<open>int | str | list[int | str]\<close> of \<^verbatim>\<open>entry_ids\<close>: the test
  \<^verbatim>\<open>isinstance(entry_ids, list)\<close> is the test for the constructor \<open>IdList\<close>. The elements
  of a list are not constrained here, since \<^verbatim>\<open>list_to_list_of_integers\<close> inspects them.
\<close>

datatype id_value = IntId int | StrId string

datatype entry_ids = Scalar id_value | IdList "pyval list"

datatype http_verb = GET | POST | PUT | DELETE

record request =
  path :: string
  http_method :: http_verb
  query_params :: "pydict option"
  post_args :: "pydict option"

type_synonym outcome = "(error + pyval) \<times> request list"

subsection \<open>Python's \<^verbatim>\<open>str\<close> of an integer, as an f-string interpolates it\<close>

definition digit_char :: "nat \<Rightarrow> char" where
  "digit_char n = char_of (48 + n)"

fun str_nat :: "nat \<Rightarrow> string" where
  "str_nat n = (if n < 10 then [digit_char n] else str_nat (n div 10) @ [digit_char (n mod 10)])"

declare str_nat.simps [simp del]

definition str_int :: "int \<Rightarrow> string" where
  "str_int i = (if i < 0 then CHR ''-'' # str_nat (nat (- i)) else str_nat (nat i))"

fun format_id :: "id_value \<Rightarrow> string" where
  "format_id (IntId n) = str_int n"
| "format_id (StrId s) = s"

fun py_of_id :: "id_value \<Rightarrow> pyval" where
  "py_of_id (IntId n) = PInt n"
| "py_of_id (StrId s) = PStr s"

text \<open>\<^verbatim>\<open>d[k] = v\<close> on an insertion-ordered dictionary.\<close>

fun dict_set :: "pydict \<Rightarrow> string \<Rightarrow> pyval \<Rightarrow> pydict" where
  "dict_set [] k v = [(k, v)]"
| "dict_set ((k', v') # d) k v = (if k' = k then (k, v) # d else (k', v') # dict_set d k v)"

subsection \<open>Collaborators that are not part of \<^verbatim>\<open>client.py\<close>\<close>

text \<open>
  \<^verbatim>\<open>client.py\<close> imports the transport (\<^verbatim>\<open>BaseClient.fetch_json\<close>), three helpers of
  \<^verbatim>\<open>noko_client.schemas.utilities\<close> and four schema classes. The client is modelled over
  any choice of them. A schema field stands for \<^verbatim>\<open>Schema(**kwargs).model_dump()\<close>: from the
  keyword arguments to the dumped dictionary, or the exception raised on the way.
\<close>

record deps =
  transport :: "request \<Rightarrow> error + pyval"
  d_date_to_string :: "pyval \<Rightarrow> error + string"
  d_timestamp_to_string :: "pyval \<Rightarrow> error + string"
  d_list_to_list_of_integers :: "pyval list \<Rightarrow> error + int list"
  d_GetNokoEntriesParameters :: "pydict \<Rightarrow> error + pydict"
  d_CreateNokoEntryParameters :: "pydict \<Rightarrow> error + pydict"
  d_EditNokoEntryParameters :: "pydict \<Rightarrow> error + pydict"
  d_GetNokoTagsParameters :: "pydict \<Rightarrow> error + pydict"

definition fetch_json :: "deps \<Rightarrow> request \<Rightarrow> request list \<Rightarrow> outcome" where
  "fetch_json D req log = (transport D req, log @ [req])"

text \<open>
  A method whose body ends in the bare statement \<^verbatim>\<open>self.fetch_json(...)\<close> returns
  \<^verbatim>\<open>None\<close> when the call returns, and propagates the exception when it raises.
\<close>

definition fetch_json_stmt :: "deps \<Rightarrow> request \<Rightarrow> request list \<Rightarrow> outcome" where
  "fetch_json_stmt D req log =
     (case fetch_json D req log of
        (Inl e, log') \<Rightarrow> (Inl e, log')
      | (Inr _, log') \<Rightarrow> (Inr PNone, log'))"

section \<open>The client methods\<close>

subsection \<open>Entries\<close>

definition list_entries :: "deps \<Rightarrow> pydict \<Rightarrow> request list \<Rightarrow> outcome" where
  "list_entries D kwargs log =
     (case d_GetNokoEntriesParameters D kwargs of
        Inl e \<Rightarrow> (Inl e, log)
      | Inr params \<Rightarrow>
          fetch_json D \<lparr>path = ''entries'', http_method = GET,
                        query_params = Some params, post_args = None\<rparr> log)"

definition get_single_entry :: "deps \<Rightarrow> id_value \<Rightarrow> request list \<Rightarrow> outcome" where
  "get_single_entry D entry_id log =
     fetch_json D \<lparr>path = ''entries/'' @ format_id entry_id, http_method = GET,
                   query_params = None, post_args = None\<rparr> log"

definition create_entry :: "deps \<Rightarrow> pydict \<Rightarrow> request list \<Rightarrow> outcome" where
  "create_entry D kwargs log =
     (case d_CreateNokoEntryParameters D kwargs of
        Inl e \<Rightarrow> (Inl e, log)
      | Inr data \<Rightarrow>
          fetch_json D \<lparr>path = ''entries'', http_method = POST,
                        query_params = None, post_args = Some data\<rparr> log)"

definition edit_entry :: "deps \<Rightarrow> id_value \<Rightarrow> pydict \<Rightarrow> request list \<Rightarrow> outcome" where
  "edit_entry D entry_id kwargs log =
     (case d_EditNokoEntryParameters D kwargs of
        Inl e \<Rightarrow> (Inl e, log)
      | Inr data \<Rightarrow>
          fetch_json D \<lparr>path = ''entries/'' @ format_id entry_id, http_method = PUT,
                        query_params = None, post_args = Some data\<rparr> log)"

text \<open>
  In the three methods below the source first builds the per-record URI and the body and then,
  when \<^verbatim>\<open>entry_ids\<close> is a list, overwrites the URI and adds \<^verbatim>\<open>entry_ids\<close> to the
  body. The f-string of a list is computed and thrown away, so the model formats the
  identifier only in the branch that keeps it.
\<close>

definition mark_as_invoiced :: "deps \<Rightarrow> entry_ids \<Rightarrow> pyval \<Rightarrow> request list \<Rightarrow> outcome" where
  "mark_as_invoiced D entry_ids date log =
     (case d_date_to_string D date of
        Inl e \<Rightarrow> (Inl e, log)
      | Inr date' \<Rightarrow>
          (let post_args = [(''date'', PStr date')] in
           case entry_ids of
             Scalar i \<Rightarrow>
               fetch_json_stmt D
                 \<lparr>path = ''entries/'' @ format_id i @ ''/mark_as_invoiced'', http_method = PUT,
                  query_params = None, post_args = Some post_args\<rparr> log
           | IdList xs \<Rightarrow>
               (case d_list_to_list_of_integers D xs of
                  Inl e \<Rightarrow> (Inl e, log)
                | Inr ns \<Rightarrow>
                    fetch_json_stmt D
                      \<lparr>path = ''entries/mark_as_invoiced'', http_method = PUT,
                       query_params = None,
                       post_args = Some (dict_set post_args ''entry_ids'' (PList (map PInt ns)))\<rparr>
                      log)))"

definition mark_as_approved :: "deps \<Rightarrow> entry_ids \<Rightarrow> pyval \<Rightarrow> request list \<Rightarrow> outcome" where
  "mark_as_approved D entry_ids approved_at log =
     (case d_timestamp_to_string D approved_at of
        Inl e \<Rightarrow> (Inl e, log)
      | Inr approved_at' \<Rightarrow>
          (let post_args = [(''approved_at'', PStr approved_at')] in
           case entry_ids of
             Scalar i \<Rightarrow>
               fetch_json_stmt D
                 \<lparr>path = ''entries/'' @ format_id i @ ''/approved'', http_method = PUT,
                  query_params = None, post_args = Some post_args\<rparr> log
           | IdList xs \<Rightarrow>
               (case d_list_to_list_of_integers D xs of
                  Inl e \<Rightarrow> (Inl e, log)
                | Inr ns \<Rightarrow>
                    fetch_json_stmt D
                      \<lparr>path = ''entries/approved'', http_method = PUT,
                       query_params = None,
                       post_args = Some (dict_set post_args ''entry_ids'' (PList (map PInt ns)))\<rparr>
                      log)))"

definition mark_as_unapproved :: "deps \<Rightarrow> entry_ids \<Rightarrow> request list \<Rightarrow> outcome" where
  "mark_as_unapproved D entry_ids log =
     (let post_args = [] in
      case entry_ids of
        Scalar i \<Rightarrow>
          fetch_json_stmt D
            \<lparr>path = ''entries/'' @ format_id i @ ''/unapproved'', http_method = PUT,
             query_params = None, post_args = Some post_args\<rparr> log
      | IdList xs \<Rightarrow>
          (case d_list_to_list_of_integers D xs of
             Inl e \<Rightarrow> (Inl e, log)
           | Inr ns \<Rightarrow>
               fetch_json_stmt D
                 \<lparr>path = ''entries/unapproved'', http_method = PUT,
                  query_params = None,
                  post_args = Some (dict_set post_args ''entry_ids'' (PList (map PInt ns)))\<rparr>
                 log))"

definition delete_entry :: "deps \<Rightarrow> id_value \<Rightarrow> request list \<Rightarrow> outcome" where
  "delete_entry D entry_id log =
     fetch_json_stmt D \<lparr>path = ''entries/'' @ format_id entry_id, http_method = DELETE,
                        query_params = None, post_args = None\<rparr> log"

subsection \<open>Tags\<close>

definition list_tags :: "deps \<Rightarrow> pydict \<Rightarrow> request list \<Rightarrow> outcome" where
  "list_tags D kwargs log =
     (case d_GetNokoTagsParameters D kwargs of
        Inl e \<Rightarrow> (Inl e, log)
      | Inr params \<Rightarrow>
          fetch_json D \<lparr>path = ''tags'', http_method = GET,
                        query_params = Some params, post_args = None\<rparr> log)"

definition create_tags :: "deps \<Rightarrow> string list \<Rightarrow> request list \<Rightarrow> outcome" where
  "create_tags D names log =
     fetch_json D \<lparr>path = ''tags'', http_method = POST, query_params = None,
                   post_args = Some [(''names'', PList (map PStr names))]\<rparr> log"

definition get_single_tag :: "deps \<Rightarrow> id_value \<Rightarrow> request list \<Rightarrow> outcome" where
  "get_single_tag D tag_id log =
     fetch_json D \<lparr>path = ''tags/'' @ format_id tag_id, http_method = GET,
                   query_params = None, post_args = None\<rparr> log"

definition get_all_entries_for_tag :: "deps \<Rightarrow> id_value \<Rightarrow> pydict \<Rightarrow> request list \<Rightarrow> outcome" where
  "get_all_entries_for_tag D tag_id kwargs log =
     (case d_GetNokoEntriesParameters D kwargs of
        Inl e \<Rightarrow> (Inl e, log)
      | Inr params \<Rightarrow>
          fetch_json D \<lparr>path = ''tags/'' @ format_id tag_id @ ''/entries'', http_method = GET,
                        query_params = Some params, post_args = None\<rparr> log)"

definition edit_tag :: "deps \<Rightarrow> id_value \<Rightarrow> string \<Rightarrow> request list \<Rightarrow> outcome" where
  "edit_tag D tag_id name log =
     fetch_json D \<lparr>path = ''tags/'' @ format_id tag_id, http_method = PUT, query_params = None,
                   post_args = Some [(''name'', PStr name)]\<rparr> log"

definition merge_tag_into_this_tag :: "deps \<Rightarrow> id_value \<Rightarrow> id_value \<Rightarrow> request list \<Rightarrow> outcome" where
  "merge_tag_into_this_tag D tag_id tag_to_merge_id log =
     fetch_json_stmt D
       \<lparr>path = ''tags/'' @ format_id tag_id @ ''/merge'', http_method = PUT, query_params = None,
        post_args = Some [(''tag_id'', py_of_id tag_to_merge_id)]\<rparr> log"

definition delete_single_tag :: "deps \<Rightarrow> id_value \<Rightarrow> request list \<Rightarrow> outcome" where
  "delete_single_tag D tag_id log =
     fetch_json_stmt D \<lparr>path = ''tags/'' @ format_id tag_id, http_method = DELETE,
                        query_params = None, post_args = None\<rparr> log"

definition delete_tags :: "deps \<Rightarrow> pyval list \<Rightarrow> request list \<Rightarrow> outcome" where
  "delete_tags D tag_ids log =
     (case d_list_to_list_of_integers D tag_ids of
        Inl e \<Rightarrow> (Inl e, log)
      | Inr tag_ids' \<Rightarrow>
          fetch_json_stmt D
            \<lparr>path = ''tags/delete'', http_method = DELETE, query_params = None,
             post_args = Some [(''tag_ids'', PList (map PInt tag_ids'))]\<rparr> log)"

section \<open>The parameter normaliser\<close>

text \<open>
  The modules \<^verbatim>\<open>noko_client.schemas.utilities\<close>, \<^verbatim>\<open>entries_parameters\<close> and
  \<^verbatim>\<open>tags_parameters\<close> are imported by the client but their text is not available. The
  definitions of this section follow the normalisation rules of the specification; the field
  names and their order follow the docstrings of \<^verbatim>\<open>client.py\<close>.
\<close>

subsection \<open>Integers written in decimal\<close>

definition digit_val :: "char \<Rightarrow> nat option" where
  "digit_val c = (let k = (of_char c :: nat) in if 48 \<le> k \<and> k \<le> 57 then Some (k - 48) else None)"

fun digits_val :: "string \<Rightarrow> nat \<Rightarrow> nat option" where
  "digits_val [] acc = Some acc"
| "digits_val (c # cs) acc =
     (case digit_val c of None \<Rightarrow> None | Some d \<Rightarrow> digits_val cs (10 * acc + d))"

definition parse_nat :: "string \<Rightarrow> nat option" where
  "parse_nat s = (if s = [] then None else digits_val s 0)"

definition parse_int :: "string \<Rightarrow> int option" where
  "parse_int s =
     (case s of
        [] \<Rightarrow> None
      | c # r \<Rightarrow> if c = CHR ''-'' then map_option (\<lambda>n. - int n) (parse_nat r)
                 else map_option int (parse_nat s))"

text \<open>
  Modelled from the spec: the coercion of one identifier, which the absent
  \<^verbatim>\<open>list_to_list_of_integers\<close> applies to each element. An element is a string or an
  integer; a string that is not a decimal integer is a validation error.
\<close>

fun to_int :: "pyval \<Rightarrow> error + int" where
  "to_int (PInt i) = Inr i"
| "to_int (PStr s) =
     (case parse_int s of None \<Rightarrow> Inl (ValidationError ''id'') | Some i \<Rightarrow> Inr i)"
| "to_int _ = Inl (ValidationError ''id'')"

text \<open>
  Modelled from the spec: \<^verbatim>\<open>list_to_list_of_integers\<close> of
  \<^verbatim>\<open>noko_client.schemas.utilities\<close>, which is absent. A list of identifiers (string or
  integer elements) becomes the array of integers, in the order of the list.
\<close>

fun list_to_list_of_integers :: "pyval list \<Rightarrow> error + int list" where
  "list_to_list_of_integers [] = Inr []"
| "list_to_list_of_integers (x # xs) =
     (case to_int x of
        Inl e \<Rightarrow> Inl e
      | Inr i \<Rightarrow>
          (case list_to_list_of_integers xs of
             Inl e \<Rightarrow> Inl e
           | Inr ns \<Rightarrow> Inr (i # ns)))"

text \<open>\<^verbatim>\<open>s.split(",")\<close> and \<^verbatim>\<open>",".join(ws)\<close>.\<close>

fun split_commas :: "string \<Rightarrow> string list" where
  "split_commas [] = [[]]"
| "split_commas (c # cs) =
     (if c = CHR '','' then [] # split_commas cs
      else (case split_commas cs of [] \<Rightarrow> [[c]] | w # ws \<Rightarrow> (c # w) # ws))"

fun join_commas :: "string list \<Rightarrow> string" where
  "join_commas [] = []"
| "join_commas [w] = w"
| "join_commas (w # v # ws) = w @ CHR '','' # join_commas (v # ws)"

text \<open>
  Modelled from the spec: the normalisation of an ID-list field for a query string, whose
  helper is absent. The field accepts a single ID (string or integer), a comma-separated
  string of IDs, or a list of IDs, and becomes a comma-separated string of integers.
\<close>

fun id_list_to_string :: "pyval \<Rightarrow> error + string" where
  "id_list_to_string (PInt i) = Inr (str_int i)"
| "id_list_to_string (PStr s) =
     (case list_to_list_of_integers (map PStr (split_commas s)) of
        Inl e \<Rightarrow> Inl e
      | Inr ns \<Rightarrow> Inr (join_commas (map str_int ns)))"
| "id_list_to_string (PList xs) =
     (case list_to_list_of_integers xs of
        Inl e \<Rightarrow> Inl e
      | Inr ns \<Rightarrow> Inr (join_commas (map str_int ns)))"
| "id_list_to_string _ = Inl (ValidationError ''ids'')"

subsection \<open>Dates and timestamps\<close>

definition leap_year :: "nat \<Rightarrow> bool" where
  "leap_year y = (y mod 4 = 0 \<and> (y mod 100 \<noteq> 0 \<or> y mod 400 = 0))"

definition days_in_month :: "nat \<Rightarrow> nat \<Rightarrow> nat" where
  "days_in_month y m =
     (if m = 2 then (if leap_year y then 29 else 28)
      else if m = 4 \<or> m = 6 \<or> m = 9 \<or> m = 11 then 30 else 31)"

definition valid_date :: "nat \<Rightarrow> nat \<Rightarrow> nat \<Rightarrow> bool" where
  "valid_date y m d =
     (1 \<le> y \<and> y \<le> 9999 \<and> 1 \<le> m \<and> m \<le> 12 \<and> 1 \<le> d \<and> d \<le> days_in_month y m)"

definition valid_time :: "nat \<Rightarrow> nat \<Rightarrow> nat \<Rightarrow> bool" where
  "valid_time h mi s = (h < 24 \<and> mi < 60 \<and> s < 60)"

definition valid_datetime :: "datetime \<Rightarrow> bool" where
  "valid_datetime dt =
     (valid_date (year dt) (month dt) (day dt) \<and> valid_time (hour dt) (minute dt) (second dt))"

text \<open>A number in a fixed number of decimal digits, zero-padded on the left.\<close>

fun zpad :: "nat \<Rightarrow> nat \<Rightarrow> string" where
  "zpad 0 n = []"
| "zpad (Suc w) n = zpad w (n div 10) @ [digit_char (n mod 10)]"

text \<open>The formats \<^verbatim>\<open>YYYY-MM-DD\<close> and \<^verbatim>\<open>YYYY-MM-DDTHH:MM:SSZ\<close>.\<close>

definition strftime_date :: "datetime \<Rightarrow> string" where
  "strftime_date dt =
     zpad 4 (year dt) @ ''-'' @ zpad 2 (month dt) @ ''-'' @ zpad 2 (day dt)"

definition strftime_time :: "datetime \<Rightarrow> string" where
  "strftime_time dt =
     zpad 2 (hour dt) @ '':'' @ zpad 2 (minute dt) @ '':'' @ zpad 2 (second dt)"

definition strftime_timestamp :: "datetime \<Rightarrow> string" where
  "strftime_timestamp dt = strftime_date dt @ ''T'' @ strftime_time dt @ ''Z''"

definition strptime_date :: "string \<Rightarrow> (nat \<times> nat \<times> nat) option" where
  "strptime_date s =
     (if length s = 10 \<and> s ! 4 = CHR ''-'' \<and> s ! 7 = CHR ''-'' then
        (case (digits_val (take 4 s) 0, digits_val (take 2 (drop 5 s)) 0,
               digits_val (drop 8 s) 0) of
           (Some y, Some m, Some d) \<Rightarrow> if valid_date y m d then Some (y, m, d) else None
         | _ \<Rightarrow> None)
      else None)"

definition strptime_time :: "string \<Rightarrow> (nat \<times> nat \<times> nat) option" where
  "strptime_time s =
     (if length s = 8 \<and> s ! 2 = CHR '':'' \<and> s ! 5 = CHR '':'' then
        (case (digits_val (take 2 s) 0, digits_val (take 2 (drop 3 s)) 0,
               digits_val (drop 6 s) 0) of
           (Some h, Some mi, Some sec) \<Rightarrow>
             if valid_time h mi sec then Some (h, mi, sec) else None
         | _ \<Rightarrow> None)
      else None)"

definition strptime_timestamp :: "string \<Rightarrow> datetime option" where
  "strptime_timestamp s =
     (if length s = 20 \<and> s ! 10 = CHR ''T'' \<and> s ! 19 = CHR ''Z'' then
        (case (strptime_date (take 10 s), strptime_time (take 8 (drop 11 s))) of
           (Some (y, m, d), Some (h, mi, sec)) \<Rightarrow>
             Some \<lparr>year = y, month = m, day = d, hour = h, minute = mi, second = sec\<rparr>
         | _ \<Rightarrow> None)
      else None)"

text \<open>
  Modelled from the spec: \<^verbatim>\<open>date_to_string\<close> of \<^verbatim>\<open>noko_client.schemas.utilities\<close>,
  which is absent. A date field accepts a date/time value or a \<^verbatim>\<open>YYYY-MM-DD\<close> string and
  is normalised to the string form; an unparseable string is rejected.
\<close>

fun date_to_string :: "pyval \<Rightarrow> error + string" where
  "date_to_string (PDateTime dt) = Inr (strftime_date dt)"
| "date_to_string (PStr s) =
     (case strptime_date s of None \<Rightarrow> Inl (ValidationError ''date'') | Some _ \<Rightarrow> Inr s)"
| "date_to_string _ = Inl (ValidationError ''date'')"

text \<open>
  Modelled from the spec: \<^verbatim>\<open>timestamp_to_string\<close> of
  \<^verbatim>\<open>noko_client.schemas.utilities\<close>, which is absent. A timestamp accepts a datetime value
  or a \<^verbatim>\<open>YYYY-MM-DDTHH:MM:SSZ\<close> string; when it is absent, the current time at call time
  is taken. The first argument of \<open>timestamp_to_string\<close> is the reading of the clock at
  the call.
\<close>

fun timestamp_string :: "pyval \<Rightarrow> error + string" where
  "timestamp_string (PDateTime dt) = Inr (strftime_timestamp dt)"
| "timestamp_string (PStr s) =
     (case strptime_timestamp s of
        None \<Rightarrow> Inl (ValidationError ''timestamp'')
      | Some _ \<Rightarrow> Inr s)"
| "timestamp_string _ = Inl (ValidationError ''timestamp'')"

definition timestamp_to_string :: "datetime \<Rightarrow> pyval \<Rightarrow> error + string" where
  "timestamp_to_string now ts = timestamp_string (if ts = PNone then PDateTime now else ts)"

subsection \<open>Schemas\<close>

text \<open>
  Modelled from the spec: the schema classes of \<^verbatim>\<open>noko_client.schemas\<close>, whose modules
  are absent. A schema lists its fields with their kind and whether the operation requires
  them. Normalising rejects a keyword that is not a field of the schema, treats a field that
  is missing or \<^verbatim>\<open>None\<close> as unset, leaves an unset optional field out of the result, and
  coerces every other value by the rule of its kind.
\<close>

datatype field_kind =
    IdListField
  | IdField
  | IntField
  | TextField
  | DateField
  | TimestampField
  | BoolField
  | EnumField "string list"

type_synonym field = "string \<times> field_kind \<times> bool"

definition bool_to_string :: "pyval \<Rightarrow> error + string" where
  "bool_to_string v =
     (case v of
        PBool b \<Rightarrow> Inr (if b then ''true'' else ''false'')
      | PStr s \<Rightarrow> if s = ''true'' \<or> s = ''false'' then Inr s else Inl (ValidationError ''bool'')
      | _ \<Rightarrow> Inl (ValidationError ''bool''))"

fun coerce :: "field_kind \<Rightarrow> pyval \<Rightarrow> error + pyval" where
  "coerce IdListField v = map_sum id PStr (id_list_to_string v)"
| "coerce IdField v =
     (case v of PInt i \<Rightarrow> Inr v | PStr s \<Rightarrow> Inr v | _ \<Rightarrow> Inl (ValidationError ''id''))"
| "coerce IntField v = (case v of PInt i \<Rightarrow> Inr v | _ \<Rightarrow> Inl (ValidationError ''int''))"
| "coerce TextField v = (case v of PStr s \<Rightarrow> Inr v | _ \<Rightarrow> Inl (ValidationError ''str''))"
| "coerce DateField v = map_sum id PStr (date_to_string v)"
| "coerce TimestampField v = map_sum id PStr (timestamp_string v)"
| "coerce BoolField v = map_sum id PStr (bool_to_string v)"
| "coerce (EnumField tokens) v =
     (case v of
        PStr s \<Rightarrow> if s \<in> set tokens then Inr v else Inl (ValidationError ''enum'')
      | _ \<Rightarrow> Inl (ValidationError ''enum''))"

fun validate_fields :: "field list \<Rightarrow> pydict \<Rightarrow> error + pydict" where
  "validate_fields [] kwargs = Inr []"
| "validate_fields ((name, kind, required) # fs) kwargs =
     (let v = (case map_of kwargs name of None \<Rightarrow> PNone | Some v \<Rightarrow> v) in
      if v = PNone then
        (if required then Inl (ValidationError name) else validate_fields fs kwargs)
      else
        (case coerce kind v of
           Inl e \<Rightarrow> Inl (ValidationError name)
         | Inr v' \<Rightarrow>
             (case validate_fields fs kwargs of
                Inl e \<Rightarrow> Inl e
              | Inr r \<Rightarrow> Inr ((name, v') # r))))"

definition normalize :: "field list \<Rightarrow> pydict \<Rightarrow> error + pydict" where
  "normalize fs kwargs =
     (case filter (\<lambda>k. k \<notin> set (map fst fs)) (map fst kwargs) of
        k # _ \<Rightarrow> Inl (ValidationError k)
      | [] \<Rightarrow> validate_fields fs kwargs)"

text \<open>
  The set of accepted \<^verbatim>\<open>tag_filter_type\<close> tokens is not given by the specification; it is
  the parameter \<open>tokens\<close>.
\<close>

definition GetNokoEntriesParameters :: "string list \<Rightarrow> pydict \<Rightarrow> error + pydict" where
  "GetNokoEntriesParameters tokens =
     normalize
       [(''user_ids'', IdListField, False),
        (''description'', TextField, False),
        (''project_ids'', IdListField, False),
        (''tag_ids'', IdListField, False),
        (''tag_filter_type'', EnumField tokens, False),
        (''from_'', DateField, False),
        (''to'', DateField, False),
        (''invoiced'', BoolField, False),
        (''updated_from'', TimestampField, False),
        (''updated_to'', TimestampField, False),
        (''billable'', BoolField, False),
        (''approved_at_from'', DateField, False),
        (''approved_at_to'', DateField, False)]"

definition entry_fields :: "bool \<Rightarrow> field list" where
  "entry_fields required =
     [(''date'', DateField, required),
      (''user_id'', IdField, required),
      (''minutes'', IntField, required),
      (''description'', TextField, False),
      (''project_id'', IdField, False),
      (''project_name'', TextField, False),
      (''source_url'', TextField, False)]"

definition CreateNokoEntryParameters :: "pydict \<Rightarrow> error + pydict" where
  "CreateNokoEntryParameters = normalize (entry_fields True)"

definition EditNokoEntryParameters :: "pydict \<Rightarrow> error + pydict" where
  "EditNokoEntryParameters = normalize (entry_fields False)"

definition GetNokoTagsParameters :: "pydict \<Rightarrow> error + pydict" where
  "GetNokoTagsParameters =
     normalize [(''name'', TextField, False), (''billable'', BoolField, False)]"

text \<open>
  The client with the normaliser of this section, the clock reading \<open>now\<close> and a transport
  \<open>T\<close>.
\<close>

definition noko :: "string list \<Rightarrow> datetime \<Rightarrow> (request \<Rightarrow> error + pyval) \<Rightarrow> deps" where
  "noko tokens now T =
     \<lparr>transport = T,
      d_date_to_string = date_to_string,
      d_timestamp_to_string = timestamp_to_string now,
      d_list_to_list_of_integers = list_to_list_of_integers,
      d_GetNokoEntriesParameters = GetNokoEntriesParameters tokens,
      d_CreateNokoEntryParameters = CreateNokoEntryParameters,
      d_EditNokoEntryParameters = EditNokoEntryParameters,
      d_GetNokoTagsParameters = GetNokoTagsParameters\<rparr>"

text \<open>
  A keyword the caller leaves unset: it is missing from the call, or passed as \<^verbatim>\<open>None\<close>,
  which is the default of every optional field.
\<close>

definition unset :: "pydict \<Rightarrow> string \<Rightarrow> bool" where
  "unset kwargs k = (map_of kwargs k = None \<or> map_of kwargs k = Some PNone)"

subsection \<open>A client for the examples\<close>

text \<open>
  A clock reading, a transport that answers every request with one record, and the client
  built from them, with \<^verbatim>\<open>and\<close> as the only accepted \<^verbatim>\<open>tag_filter_type\<close>.
\<close>

definition clock_example :: datetime where
  "clock_example = \<lparr>year = 2026, month = 11, day = 3, hour = 10, minute = 0, second = 7\<rparr>"

definition transport_example :: "request \<Rightarrow> error + pyval" where
  "transport_example req = Inr (PList [PDict [(''id'', PInt 5)]])"

definition noko_example :: deps where
  "noko_example = noko [''and''] clock_example transport_example"

section \<open>Auxiliary lemmas\<close>

subsection \<open>Requests and paths\<close>

lemma fetch_json_stmt_fst:
  "fst (fetch_json_stmt D req log) = (case transport D req of Inl e \<Rightarrow> Inl e | Inr r \<Rightarrow> Inr PNone)"
  by (simp add: fetch_json_stmt_def fetch_json_def split: sum.splits)

lemma fetch_json_stmt_snd: "snd (fetch_json_stmt D req log) = log @ [req]"
  by (simp add: fetch_json_stmt_def fetch_json_def split: sum.splits)

lemma fetch_json_stmt_eq:
  "fetch_json_stmt D req log =
     (case transport D req of Inl e \<Rightarrow> Inl e | Inr r \<Rightarrow> Inr PNone, log @ [req])"
  by (simp add: fetch_json_stmt_def fetch_json_def split: sum.splits)

lemma singular_path_neq_bulk: "a @ x @ CHR ''/'' # b \<noteq> a @ b"
proof
  assume "a @ x @ CHR ''/'' # b = a @ b"
  then have "length (a @ x @ CHR ''/'' # b) = length (a @ b)" by simp
  then show False by simp
qed

lemma mark_as_approved_body:
  "snd (mark_as_approved D e a log) = log
   \<or> (\<exists>req b ts. snd (mark_as_approved D e a log) = log @ [req]
         \<and> d_timestamp_to_string D a = Inr ts
         \<and> http_method req = PUT \<and> post_args req = Some b
         \<and> map_of b ''approved_at'' = Some (PStr ts))"
proof (cases "d_timestamp_to_string D a")
  case (Inl err)
  then show ?thesis by (simp add: mark_as_approved_def)
next
  case (Inr ts)
  show ?thesis
  proof (cases e)
    case (Scalar i)
    with Inr show ?thesis by (simp add: mark_as_approved_def fetch_json_stmt_snd Let_def)
  next
    case (IdList xs)
    with Inr show ?thesis
      by (cases "d_list_to_list_of_integers D xs")
         (simp_all add: mark_as_approved_def fetch_json_stmt_snd Let_def)
  qed
qed

subsection \<open>Decimal numerals\<close>

lemma digit_val_digit_char: "n < 10 \<Longrightarrow> digit_val (digit_char n) = Some n"
  by (simp add: digit_val_def digit_char_def)

lemma digit_char_digit_val: "digit_val c = Some n \<Longrightarrow> digit_char n = c \<and> n < 10"
  by (auto simp add: digit_val_def digit_char_def Let_def split: if_splits)

lemma digits_val_append:
  "digits_val (xs @ ys) acc =
     (case digits_val xs acc of None \<Rightarrow> None | Some v \<Rightarrow> digits_val ys v)"
  by (induction xs arbitrary: acc) (auto split: option.splits)

lemma digits_val_str_nat: "digits_val (str_nat n) 0 = Some n"
proof (induction n rule: str_nat.induct)
  case (1 n)
  show ?case
  proof (cases "n < 10")
    case True
    then show ?thesis by (simp add: str_nat.simps [of n] digit_val_digit_char)
  next
    case False
    with 1 have "digits_val (str_nat (n div 10)) 0 = Some (n div 10)" by simp
    with False show ?thesis
      by (simp add: str_nat.simps [of n] digits_val_append digit_val_digit_char)
  qed
qed

lemma str_nat_not_Nil: "str_nat n \<noteq> []"
  by (simp add: str_nat.simps [of n])

lemma parse_nat_str_nat: "parse_nat (str_nat n) = Some n"
  by (simp add: parse_nat_def str_nat_not_Nil digits_val_str_nat)

lemma str_nat_digits: "c \<in> set (str_nat n) \<Longrightarrow> digit_val c \<noteq> None"
proof (induction n rule: str_nat.induct)
  case (1 n)
  show ?case
  proof (cases "n < 10")
    case True
    with 1(2) show ?thesis by (simp add: str_nat.simps [of n] digit_val_digit_char)
  next
    case False
    with 1 show ?thesis
      by (auto simp add: str_nat.simps [of n] digit_val_digit_char)
  qed
qed

lemma digit_val_minus: "digit_val CHR ''-'' = None"
  by (simp add: digit_val_def)

lemma digit_val_comma: "digit_val CHR '','' = None"
  by (simp add: digit_val_def)

lemma digits_val_digits: "digits_val s acc = Some v \<Longrightarrow> c \<in> set s \<Longrightarrow> digit_val c \<noteq> None"
  by (induction s arbitrary: acc) (auto split: option.splits)

lemma parse_int_str_int: "parse_int (str_int i) = Some i"
proof (cases "i < 0")
  case True
  then show ?thesis by (simp add: parse_int_def str_int_def parse_nat_str_nat)
next
  case False
  obtain c r where cr: "str_nat (nat i) = c # r"
    using str_nat_not_Nil [of "nat i"] by (cases "str_nat (nat i)") auto
  then have "c \<in> set (str_nat (nat i))" by simp
  then have "c \<noteq> CHR ''-''" using str_nat_digits digit_val_minus by blast
  with False cr parse_nat_str_nat [of "nat i"] show ?thesis
    by (simp add: parse_int_def str_int_def)
qed

lemma parse_int_no_comma:
  assumes "parse_int s = Some n"
  shows "CHR '','' \<notin> set s"
proof
  assume c: "CHR '','' \<in> set s"
  from assms obtain a r where s: "s = a # r" by (cases s) (auto simp add: parse_int_def)
  show False
  proof (cases "a = CHR ''-''")
    case True
    with assms s obtain v where "digits_val r 0 = Some v"
      by (auto simp add: parse_int_def parse_nat_def split: if_splits)
    moreover from c s True have "CHR '','' \<in> set r" by auto
    ultimately show False using digits_val_digits digit_val_comma by blast
  next
    case False
    with assms s obtain v where "digits_val s 0 = Some v"
      by (auto simp add: parse_int_def parse_nat_def split: if_splits)
    with c show False using digits_val_digits digit_val_comma by blast
  qed
qed

lemma str_nat_no_comma: "CHR '','' \<notin> set (str_nat n)"
  using str_nat_digits [of "CHR '',''" n] digit_val_comma by auto

lemma str_int_no_comma: "CHR '','' \<notin> set (str_int i)"
  by (simp add: str_int_def str_nat_no_comma)

subsection \<open>Identifier lists\<close>

lemma list_to_list_of_integers_iff:
  "list_to_list_of_integers xs = Inr ns \<longleftrightarrow> list_all2 (\<lambda>x n. to_int x = Inr n) xs ns"
proof (induction xs arbitrary: ns)
  case Nil
  then show ?case by auto
next
  case (Cons x xs)
  show ?case
  proof (cases "list_to_list_of_integers xs")
    case (Inl e)
    with Cons [of "tl ns"] show ?thesis
      by (cases ns) (auto split: sum.splits)
  next
    case (Inr ms)
    with Cons [of ms] Cons [of "tl ns"] show ?thesis
      by (cases ns) (auto split: sum.splits)
  qed
qed

lemma split_commas_word: "CHR '','' \<notin> set w \<Longrightarrow> split_commas w = [w]"
  by (induction w) auto

lemma split_commas_append:
  "CHR '','' \<notin> set w \<Longrightarrow> split_commas (w @ CHR '','' # r) = w # split_commas r"
  by (induction w) auto

lemma split_join_commas:
  "ws \<noteq> [] \<Longrightarrow> \<forall>w \<in> set ws. CHR '','' \<notin> set w \<Longrightarrow> split_commas (join_commas ws) = ws"
proof (induction ws rule: join_commas.induct)
  case 1
  then show ?case by simp
next
  case (2 w)
  then show ?case by (simp add: split_commas_word)
next
  case (3 w v ws)
  then show ?case by (simp add: split_commas_append)
qed

lemma list_to_list_of_integers_strs:
  "list_to_list_of_integers (map (\<lambda>n. PStr (str_int n)) ns) = Inr ns"
  by (induction ns) (simp_all add: parse_int_str_int)

lemma id_list_to_string_scalar_str:
  assumes "to_int (PStr s) = Inr n"
  shows "id_list_to_string (PStr s) = Inr (str_int n)"
proof -
  from assms have p: "parse_int s = Some n" by (simp split: option.splits)
  from parse_int_no_comma [OF p] have "split_commas s = [s]" by (rule split_commas_word)
  with p show ?thesis by simp
qed

subsection \<open>Dates and timestamps\<close>

lemma length_zpad: "length (zpad w n) = w"
  by (induction w n rule: zpad.induct) simp_all

lemma digits_val_zpad: "digits_val (zpad w n) acc = Some (acc * 10 ^ w + n mod 10 ^ w)"
proof (induction w n arbitrary: acc rule: zpad.induct)
  case (1 n)
  then show ?case by simp
next
  case (2 w n)
  have "n mod (10 * 10 ^ w) = 10 * (n div 10 mod 10 ^ w) + n mod 10"
    by (simp add: mod_mult2_eq)
  with 2 show ?case
    by (simp add: digits_val_append digit_val_digit_char algebra_simps)
qed

lemma digits_val_zpad_small: "n < 10 ^ w \<Longrightarrow> digits_val (zpad w n) 0 = Some n"
  by (simp add: digits_val_zpad)

lemma zpad_digits_val: "digits_val ds 0 = Some v \<Longrightarrow> zpad (length ds) v = ds"
proof (induction ds arbitrary: v rule: rev_induct)
  case Nil
  then show ?case by simp
next
  case (snoc c ds)
  from snoc.prems obtain u k where u: "digits_val ds 0 = Some u"
    and k: "digit_val c = Some k" and v: "v = 10 * u + k"
    by (auto simp add: digits_val_append split: option.splits)
  from k have kc: "digit_char k = c" and k10: "k < 10"
    using digit_char_digit_val by auto
  from v k10 have "v div 10 = u" "v mod 10 = k" by auto
  with snoc.IH [OF u] kc show ?case by simp
qed

lemma date_layout:
  assumes "length s = 10"
  shows "s = take 4 s @ [s ! 4] @ take 2 (drop 5 s) @ [s ! 7] @ drop 8 s"
proof -
  have "s = take 4 s @ drop 4 s" by simp
  also have "drop 4 s = s ! 4 # drop 5 s" using assms by (simp add: Cons_nth_drop_Suc [symmetric])
  also have "drop 5 s = take 2 (drop 5 s) @ drop 7 s"
    using append_take_drop_id [of 2 "drop 5 s"] by simp
  also have "drop 7 s = s ! 7 # drop 8 s" using assms by (simp add: Cons_nth_drop_Suc [symmetric])
  finally show ?thesis by simp
qed

lemma strptime_strftime_date:
  assumes "valid_date (year dt) (month dt) (day dt)"
  shows "strptime_date (strftime_date dt) = Some (year dt, month dt, day dt)"
proof -
  from assms have y: "year dt < 10 ^ 4" and m: "month dt < 10 ^ 2" and d: "day dt < 10 ^ 2"
    by (auto simp add: valid_date_def days_in_month_def split: if_splits)
  show ?thesis
    using assms digits_val_zpad_small [OF y] digits_val_zpad_small [OF m]
      digits_val_zpad_small [OF d]
    by (simp add: strptime_date_def strftime_date_def length_zpad nth_append)
qed

lemma strftime_strptime_date:
  assumes "strptime_date s = Some (y, m, d)"
  shows "strftime_date \<lparr>year = y, month = m, day = d, hour = h, minute = mi, second = sec\<rparr> = s"
proof -
  from assms have len: "length s = 10" and s4: "s ! 4 = CHR ''-''" and s7: "s ! 7 = CHR ''-''"
    and py: "digits_val (take 4 s) 0 = Some y"
    and pm: "digits_val (take 2 (drop 5 s)) 0 = Some m"
    and pd: "digits_val (drop 8 s) 0 = Some d"
    by (auto simp add: strptime_date_def split: if_splits option.splits)
  from zpad_digits_val [OF py] len have zy: "zpad 4 y = take 4 s" by simp
  from zpad_digits_val [OF pm] len have zm: "zpad 2 m = take 2 (drop 5 s)" by simp
  from zpad_digits_val [OF pd] len have zd: "zpad 2 d = drop 8 s" by simp
  show ?thesis
    using date_layout [OF len] s4 s7 by (simp add: strftime_date_def zy zm zd)
qed

lemma strptime_date_valid: "strptime_date s = Some (y, m, d) \<Longrightarrow> valid_date y m d"
  by (auto simp add: strptime_date_def split: if_splits option.splits)

lemma length_strftime_date: "length (strftime_date dt) = 10"
  by (simp add: strftime_date_def length_zpad)

lemma time_layout:
  assumes "length s = 8"
  shows "s = take 2 s @ [s ! 2] @ take 2 (drop 3 s) @ [s ! 5] @ drop 6 s"
proof -
  have "s = take 2 s @ drop 2 s" by simp
  also have "drop 2 s = s ! 2 # drop 3 s" using assms by (simp add: Cons_nth_drop_Suc [symmetric])
  also have "drop 3 s = take 2 (drop 3 s) @ drop 5 s"
    using append_take_drop_id [of 2 "drop 3 s"] by simp
  also have "drop 5 s = s ! 5 # drop 6 s" using assms by (simp add: Cons_nth_drop_Suc [symmetric])
  finally show ?thesis by simp
qed

lemma length_strftime_time: "length (strftime_time dt) = 8"
  by (simp add: strftime_time_def length_zpad)

lemma strptime_strftime_time:
  assumes "valid_time (hour dt) (minute dt) (second dt)"
  shows "strptime_time (strftime_time dt) = Some (hour dt, minute dt, second dt)"
proof -
  from assms have h: "hour dt < 10 ^ 2" and m: "minute dt < 10 ^ 2" and d: "second dt < 10 ^ 2"
    by (auto simp add: valid_time_def)
  show ?thesis
    using assms digits_val_zpad_small [OF h] digits_val_zpad_small [OF m]
      digits_val_zpad_small [OF d]
    by (simp add: strptime_time_def strftime_time_def length_zpad nth_append)
qed

lemma strftime_strptime_time:
  assumes "strptime_time s = Some (h, mi, sec)"
  shows "strftime_time \<lparr>year = y, month = m, day = d, hour = h, minute = mi, second = sec\<rparr> = s"
proof -
  from assms have len: "length s = 8" and s2: "s ! 2 = CHR '':''" and s5: "s ! 5 = CHR '':''"
    and ph: "digits_val (take 2 s) 0 = Some h"
    and pm: "digits_val (take 2 (drop 3 s)) 0 = Some mi"
    and ps: "digits_val (drop 6 s) 0 = Some sec"
    by (auto simp add: strptime_time_def split: if_splits option.splits)
  from zpad_digits_val [OF ph] len have zh: "zpad 2 h = take 2 s" by simp
  from zpad_digits_val [OF pm] len have zm: "zpad 2 mi = take 2 (drop 3 s)" by simp
  from zpad_digits_val [OF ps] len have zs: "zpad 2 sec = drop 6 s" by simp
  show ?thesis
    using time_layout [OF len] s2 s5 by (simp add: strftime_time_def zh zm zs)
qed

lemma strptime_strftime_timestamp:
  assumes "valid_datetime dt"
  shows "strptime_timestamp (strftime_timestamp dt) = Some dt"
proof -
  from assms have d: "strptime_date (strftime_date dt) = Some (year dt, month dt, day dt)"
    by (simp add: valid_datetime_def strptime_strftime_date)
  from assms have t: "strptime_time (strftime_time dt) = Some (hour dt, minute dt, second dt)"
    by (simp add: valid_datetime_def strptime_strftime_time)
  show ?thesis
    using d t
    by (simp add: strptime_timestamp_def strftime_timestamp_def length_strftime_date
        length_strftime_time nth_append)
qed

lemma timestamp_layout:
  assumes "length s = 20"
  shows "s = take 10 s @ [s ! 10] @ take 8 (drop 11 s) @ [s ! 19]"
proof -
  have "s = take 10 s @ drop 10 s" by simp
  also have "drop 10 s = s ! 10 # drop 11 s"
    using assms by (simp add: Cons_nth_drop_Suc [symmetric])
  also have "drop 11 s = take 8 (drop 11 s) @ drop 19 s"
    using append_take_drop_id [of 8 "drop 11 s"] by simp
  also have "drop 19 s = s ! 19 # drop 20 s"
    using assms by (simp add: Cons_nth_drop_Suc [symmetric])
  also have "drop 20 s = []" using assms by simp
  finally show ?thesis by simp
qed

lemma strftime_strptime_timestamp:
  assumes "strptime_timestamp s = Some dt"
  shows "strftime_timestamp dt = s"
proof -
  from assms obtain y m d h mi sec where len: "length s = 20"
    and s10: "s ! 10 = CHR ''T''" and s19: "s ! 19 = CHR ''Z''"
    and pd: "strptime_date (take 10 s) = Some (y, m, d)"
    and pt: "strptime_time (take 8 (drop 11 s)) = Some (h, mi, sec)"
    and dt: "dt = \<lparr>year = y, month = m, day = d, hour = h, minute = mi, second = sec\<rparr>"
    by (auto simp add: strptime_timestamp_def split: if_splits option.splits)
  have a: "strftime_date dt = take 10 s"
    unfolding dt by (rule strftime_strptime_date [OF pd])
  have b: "strftime_time dt = take 8 (drop 11 s)"
    unfolding dt by (rule strftime_strptime_time [OF pt])
  have "strftime_timestamp dt = take 10 s @ ''T'' @ take 8 (drop 11 s) @ ''Z''"
    by (simp add: strftime_timestamp_def a b)
  also have "\<dots> = s" using timestamp_layout [OF len] s10 s19 by simp
  finally show ?thesis .
qed

lemma strptime_timestamp_valid: "strptime_timestamp s = Some dt \<Longrightarrow> valid_datetime dt"
  by (auto simp add: strptime_timestamp_def strptime_time_def valid_datetime_def
      dest: strptime_date_valid split: if_splits option.splits)

subsection \<open>Schemas\<close>

lemma validate_fields_Cons:
  assumes "validate_fields ((name, kind, required) # fs) kwargs = Inr r"
  shows "\<exists>r'. validate_fields fs kwargs = Inr r' \<and>
           (if unset kwargs name then r = r'
            else \<exists>v v'. map_of kwargs name = Some v \<and> coerce kind v = Inr v' \<and>
                   r = (name, v') # r')"
proof (cases "map_of kwargs name")
  case None
  with assms show ?thesis
    by (simp add: unset_def split: if_splits)
next
  case (Some v)
  show ?thesis
  proof (cases "v = PNone")
    case True
    with Some assms show ?thesis
      by (simp add: unset_def split: if_splits)
  next
    case False
    with Some assms show ?thesis
      by (simp add: unset_def split: sum.splits)
  qed
qed

lemma validate_fields_keys:
  "validate_fields fs kwargs = Inr r \<Longrightarrow>
     map fst r = filter (\<lambda>k. \<not> unset kwargs k) (map fst fs)"
proof (induction fs arbitrary: r)
  case Nil
  then show ?case by simp
next
  case (Cons f fs)
  obtain name kind required where f: "f = (name, kind, required)" by (cases f) auto
  from validate_fields_Cons [OF Cons.prems [unfolded f]]
  obtain r' where r': "validate_fields fs kwargs = Inr r'"
    and r: "if unset kwargs name then r = r'
            else \<exists>v v'. map_of kwargs name = Some v \<and> coerce kind v = Inr v' \<and>
                   r = (name, v') # r'" by blast
  from Cons.IH [OF r'] have IH: "map fst r' = filter (\<lambda>k. \<not> unset kwargs k) (map fst fs)" .
  show ?case
  proof (cases "unset kwargs name")
    case True
    with r IH f show ?thesis by simp
  next
    case False
    with r obtain v' where "r = (name, v') # r'" by auto
    with False IH f show ?thesis by simp
  qed
qed

lemma validate_fields_value:
  "validate_fields fs kwargs = Inr r \<Longrightarrow> (name, kind, req) \<in> set fs \<Longrightarrow>
     distinct (map fst fs) \<Longrightarrow> map_of kwargs name = Some v \<Longrightarrow> v \<noteq> PNone \<Longrightarrow>
     \<exists>v'. coerce kind v = Inr v' \<and> map_of r name = Some v'"
proof (induction fs arbitrary: r)
  case Nil
  then show ?case by simp
next
  case (Cons f fs)
  obtain name' kind' required where f: "f = (name', kind', required)" by (cases f) auto
  from validate_fields_Cons [OF Cons.prems(1) [unfolded f]]
  obtain r' where r': "validate_fields fs kwargs = Inr r'"
    and r: "if unset kwargs name' then r = r'
            else \<exists>v v'. map_of kwargs name' = Some v \<and> coerce kind' v = Inr v' \<and>
                   r = (name', v') # r'" by blast
  from Cons.prems(3) f have dis: "distinct (map fst fs)" and fresh: "name' \<notin> fst ` set fs"
    by auto
  show ?case
  proof (cases "name' = name")
    case True
    from Cons.prems(2) f fresh True have k: "kind' = kind"
      by (auto simp add: rev_image_eqI)
    from Cons.prems(4,5) True have "\<not> unset kwargs name'" by (simp add: unset_def)
    with r True k Cons.prems(4) show ?thesis by auto
  next
    case False
    with Cons.prems(2) f have mem: "(name, kind, req) \<in> set fs" by auto
    from Cons.IH [OF r' mem dis Cons.prems(4,5)]
    obtain v' where v': "coerce kind v = Inr v'" "map_of r' name = Some v'" by blast
    from r have "r = r' \<or> (\<exists>w. r = (name', w) # r')" by (auto split: if_splits)
    with v' False show ?thesis by auto
  qed
qed

lemma normalize_Inr:
  assumes "normalize fs kwargs = Inr r"
  shows "validate_fields fs kwargs = Inr r \<and> set (map fst kwargs) \<subseteq> set (map fst fs)"
proof -
  let ?u = "filter (\<lambda>k. k \<notin> set (map fst fs)) (map fst kwargs)"
  from assms have u: "?u = []" and v: "validate_fields fs kwargs = Inr r"
    unfolding normalize_def by (simp_all split: list.splits)
  from u have "\<forall>k \<in> set (map fst kwargs). k \<in> set (map fst fs)"
    unfolding filter_empty_conv by blast
  with v show ?thesis by blast
qed

lemma unset_unknown: "k \<notin> fst ` set kwargs \<Longrightarrow> unset kwargs k"
  by (simp add: unset_def map_of_eq_None_iff)

lemma normalize_keys:
  assumes "normalize fs kwargs = Inr r"
  shows "k \<in> fst ` set r \<longleftrightarrow> \<not> unset kwargs k"
proof -
  from normalize_Inr [OF assms] have v: "validate_fields fs kwargs = Inr r"
    and sub: "set (map fst kwargs) \<subseteq> set (map fst fs)" by auto
  from validate_fields_keys [OF v]
  have "set (map fst r) = {k \<in> set (map fst fs). \<not> unset kwargs k}" by auto
  moreover have "\<not> unset kwargs k \<Longrightarrow> k \<in> set (map fst fs)"
    using sub unset_unknown [of k kwargs] by auto
  ultimately show ?thesis by auto
qed

lemma normalize_unset:
  assumes "normalize fs kwargs = Inr r" and "unset kwargs k"
  shows "map_of r k = None"
proof -
  from normalize_keys [OF assms(1), of k] assms(2) have "k \<notin> fst ` set r" by simp
  then show ?thesis by (simp add: map_of_eq_None_iff)
qed

lemma normalize_value:
  assumes "normalize fs kwargs = Inr r" and "(name, kind, req) \<in> set fs"
    and "distinct (map fst fs)" and "map_of kwargs name = Some v" and "v \<noteq> PNone"
  shows "\<exists>v'. coerce kind v = Inr v' \<and> map_of r name = Some v'"
proof -
  from normalize_Inr [OF assms(1)] have "validate_fields fs kwargs = Inr r" by simp
  from validate_fields_value [OF this assms(2-5)] show ?thesis .
qed

lemma distinct_entries_fields:
  "distinct (map fst
       [(''user_ids'', IdListField, False),
        (''description'', TextField, False),
        (''project_ids'', IdListField, False),
        (''tag_ids'', IdListField, False),
        (''tag_filter_type'', EnumField tokens, False),
        (''from_'', DateField, False),
        (''to'', DateField, False),
        (''invoiced'', BoolField, False),
        (''updated_from'', TimestampField, False),
        (''updated_to'', TimestampField, False),
        (''billable'', BoolField, False),
        (''approved_at_from'', DateField, False),
        (''approved_at_to'', DateField, False)])"
  by simp

lemma bool_field_value:
  assumes "normalize fs kwargs = Inr q" and "(name, BoolField, req) \<in> set fs"
    and "distinct (map fst fs)" and "map_of kwargs name = Some (PBool b)"
  shows "map_of q name = Some (PStr (if b then ''true'' else ''false''))"
proof -
  from normalize_value [OF assms(1-4)] obtain v' where
    "coerce BoolField (PBool b) = Inr v'" "map_of q name = Some v'" by auto
  then show ?thesis by (auto simp add: bool_to_string_def)
qed

subsection \<open>Values of the examples\<close>

lemma digit_char_values:
  "digit_char 0 = CHR ''0''" "digit_char 1 = CHR ''1''" "digit_char 2 = CHR ''2''"
  "digit_char 3 = CHR ''3''" "digit_char 4 = CHR ''4''" "digit_char 5 = CHR ''5''"
  "digit_char 6 = CHR ''6''" "digit_char 7 = CHR ''7''" "digit_char 8 = CHR ''8''"
  "digit_char 9 = CHR ''9''" "digit_char (Suc 0) = CHR ''1''"
  by code_simp+

lemma str_int_values:
  "str_int 5 = ''5''" "str_int 6 = ''6''" "str_int 7 = ''7''" "str_int 12 = ''12''"
  by (simp_all add: str_int_def str_nat.simps digit_char_values)

lemma zpad_values:
  "zpad 4 2024 = ''2024''" "zpad 2 2 = ''02''" "zpad 2 29 = ''29''" "zpad 2 12 = ''12''"
  "zpad 2 30 = ''30''" "zpad 2 45 = ''45''" "zpad 2 1 = ''01''" "zpad 2 0 = ''00''"
  "zpad 4 2026 = ''2026''" "zpad 2 11 = ''11''" "zpad 2 3 = ''03''" "zpad 2 10 = ''10''"
  "zpad 2 7 = ''07''"
  by code_simp+

lemma noko_example_fields:
  "transport noko_example = transport_example"
  "d_date_to_string noko_example = date_to_string"
  "d_timestamp_to_string noko_example = timestamp_to_string clock_example"
  "d_list_to_list_of_integers noko_example = list_to_list_of_integers"
  "d_GetNokoEntriesParameters noko_example = GetNokoEntriesParameters [''and'']"
  "d_CreateNokoEntryParameters noko_example = CreateNokoEntryParameters"
  "d_EditNokoEntryParameters noko_example = EditNokoEntryParameters"
  "d_GetNokoTagsParameters noko_example = GetNokoTagsParameters"
  by (simp_all add: noko_example_def noko_def)

lemma example_dates:
  "strptime_date ''2024-01-01'' = Some (2024, 1, 1)"
  "strptime_date ''2024-13-01'' = None"
  "strptime_date ''2023-02-29'' = None"
  "strptime_timestamp ''2024-02-29T12:30:45Z''
     = Some \<lparr>year = 2024, month = 2, day = 29, hour = 12, minute = 30, second = 45\<rparr>"
  "strptime_timestamp ''2024-02-29 12:30:45'' = None"
  "strptime_timestamp ''yesterday'' = None"
  "valid_datetime \<lparr>year = 2024, month = 2, day = 29, hour = 12, minute = 30, second = 45\<rparr>"
  "valid_datetime clock_example"
  by (code_simp+)

lemma example_strftime:
  "strftime_date \<lparr>year = 2024, month = 2, day = 29, hour = 12, minute = 30, second = 45\<rparr>
     = ''2024-02-29''"
  "strftime_timestamp \<lparr>year = 2024, month = 2, day = 29, hour = 12, minute = 30, second = 45\<rparr>
     = ''2024-02-29T12:30:45Z''"
  "strftime_timestamp clock_example = ''2026-11-03T10:00:07Z''"
  by (simp_all add: strftime_timestamp_def strftime_time_def strftime_date_def zpad_values
      clock_example_def)

lemma example_ids:
  "list_to_list_of_integers [PInt 5, PInt 6, PStr ''7''] = Inr [5, 6, 7]"
  "list_to_list_of_integers [PInt 5, PStr ''6''] = Inr [5, 6]"
  "list_to_list_of_integers [PInt 1, PStr ''abc''] = Inl (ValidationError ''id'')"
  "to_int (PStr ''007'') = Inr 7"
  by (simp_all add: parse_int_def parse_nat_def digit_val_def)

subsection \<open>Normalised parameters in the requests\<close>

lemma id_list_to_string_not_None: "id_list_to_string v = Inr c \<Longrightarrow> v \<noteq> PNone"
  by auto

lemma entries_id_list_field:
  assumes "id_list_to_string v = Inr c"
    and "k = ''user_ids'' \<or> k = ''project_ids'' \<or> k = ''tag_ids''"
  shows "GetNokoEntriesParameters tokens [(k, v)] = Inr [(k, PStr c)]"
proof -
  from assms(1) have nn: "v \<noteq> PNone" by (rule id_list_to_string_not_None)
  from assms(2) consider "k = ''user_ids''" | "k = ''project_ids''" | "k = ''tag_ids''" by blast
  then show ?thesis
  proof cases
    case 1
    with assms(1) nn show ?thesis
      by (simp add: GetNokoEntriesParameters_def normalize_def)
  next
    case 2
    with assms(1) nn show ?thesis
      by (simp add: GetNokoEntriesParameters_def normalize_def)
  next
    case 3
    with assms(1) nn show ?thesis
      by (simp add: GetNokoEntriesParameters_def normalize_def)
  qed
qed

lemma list_entries_sends:
  "GetNokoEntriesParameters tokens kwargs = Inr q \<Longrightarrow>
     list_entries (noko tokens now T) kwargs log =
       (T \<lparr>path = ''entries'', http_method = GET, query_params = Some q, post_args = None\<rparr>,
        log @ [\<lparr>path = ''entries'', http_method = GET, query_params = Some q,
                 post_args = None\<rparr>])"
  by (simp add: list_entries_def noko_def fetch_json_def)

lemma get_all_entries_for_tag_sends:
  "GetNokoEntriesParameters tokens kwargs = Inr q \<Longrightarrow>
     get_all_entries_for_tag (noko tokens now T) tag_id kwargs log =
       (T \<lparr>path = ''tags/'' @ format_id tag_id @ ''/entries'', http_method = GET,
           query_params = Some q, post_args = None\<rparr>,
        log @ [\<lparr>path = ''tags/'' @ format_id tag_id @ ''/entries'', http_method = GET,
                 query_params = Some q, post_args = None\<rparr>])"
  by (simp add: get_all_entries_for_tag_def noko_def fetch_json_def)

lemma list_tags_sends:
  "GetNokoTagsParameters kwargs = Inr q \<Longrightarrow>
     list_tags (noko tokens now T) kwargs log =
       (T \<lparr>path = ''tags'', http_method = GET, query_params = Some q, post_args = None\<rparr>,
        log @ [\<lparr>path = ''tags'', http_method = GET, query_params = Some q,
                 post_args = None\<rparr>])"
  by (simp add: list_tags_def noko_def fetch_json_def)

lemma id_list_forms:
  assumes "list_all2 (\<lambda>x n. to_int x = Inr n) xs ns"
  shows "list_to_list_of_integers xs = Inr ns
       \<and> id_list_to_string (PList xs) = Inr (join_commas (map str_int ns))
       \<and> (ns \<noteq> [] \<longrightarrow>
            id_list_to_string (PStr (join_commas (map str_int ns)))
              = Inr (join_commas (map str_int ns))
          \<and> list_to_list_of_integers (map PStr (split_commas (join_commas (map str_int ns))))
              = Inr ns)
       \<and> (ws \<noteq> [] \<and> (\<forall>w \<in> set ws. CHR '','' \<notin> set w) \<longrightarrow>
            id_list_to_string (PStr (join_commas ws)) = id_list_to_string (PList (map PStr ws)))
       \<and> id_list_to_string (PInt n) = Inr (str_int n)
       \<and> (to_int (PStr s) = Inr n \<longrightarrow> id_list_to_string (PStr s) = Inr (str_int n))
       \<and> to_int (PInt n) = Inr n \<and> to_int (PStr (str_int n)) = Inr n"
proof -
  from assms have a: "list_to_list_of_integers xs = Inr ns"
    by (simp add: list_to_list_of_integers_iff)
  then have b: "id_list_to_string (PList xs) = Inr (join_commas (map str_int ns))" by simp
  have c: "ns \<noteq> [] \<longrightarrow>
            id_list_to_string (PStr (join_commas (map str_int ns)))
              = Inr (join_commas (map str_int ns))
          \<and> list_to_list_of_integers (map PStr (split_commas (join_commas (map str_int ns))))
              = Inr ns"
  proof
    assume ne: "ns \<noteq> []"
    have "split_commas (join_commas (map str_int ns)) = map str_int ns"
      using ne by (intro split_join_commas) (auto simp add: str_int_no_comma)
    then show "id_list_to_string (PStr (join_commas (map str_int ns)))
              = Inr (join_commas (map str_int ns))
          \<and> list_to_list_of_integers (map PStr (split_commas (join_commas (map str_int ns))))
              = Inr ns"
      using list_to_list_of_integers_strs [of ns] by (simp add: comp_def)
  qed
  have d: "ws \<noteq> [] \<and> (\<forall>w \<in> set ws. CHR '','' \<notin> set w) \<longrightarrow>
            id_list_to_string (PStr (join_commas ws)) = id_list_to_string (PList (map PStr ws))"
    by (simp add: split_join_commas)
  have e: "to_int (PStr s) = Inr n \<longrightarrow> id_list_to_string (PStr s) = Inr (str_int n)"
    using id_list_to_string_scalar_str by blast
  show ?thesis using a b c d e by (simp add: parse_int_str_int)
qed

lemma boolean_filter_fields:
  "bool_to_string (PBool True) = Inr ''true'' \<and> bool_to_string (PBool False) = Inr ''false''
 \<and> list_tags (noko tokens now T) [(''name'', PStr ''urgent''), (''billable'', PBool True)] log =
      (T \<lparr>path = ''tags'', http_method = GET,
          query_params = Some [(''name'', PStr ''urgent''), (''billable'', PStr ''true'')],
          post_args = None\<rparr>,
       log @ [\<lparr>path = ''tags'', http_method = GET,
                query_params = Some [(''name'', PStr ''urgent''), (''billable'', PStr ''true'')],
                post_args = None\<rparr>])
 \<and> (GetNokoTagsParameters kwargs = Inr q \<longrightarrow>
      (unset kwargs ''billable'' \<longrightarrow> map_of q ''billable'' = None)
      \<and> (map_of kwargs ''billable'' = Some (PBool b) \<longrightarrow>
           map_of q ''billable'' = Some (PStr (if b then ''true'' else ''false''))))
 \<and> (GetNokoEntriesParameters tokens kwargs = Inr q' \<longrightarrow>
      (unset kwargs ''billable'' \<longrightarrow> map_of q' ''billable'' = None)
      \<and> (unset kwargs ''invoiced'' \<longrightarrow> map_of q' ''invoiced'' = None)
      \<and> (map_of kwargs ''billable'' = Some (PBool b) \<longrightarrow>
           map_of q' ''billable'' = Some (PStr (if b then ''true'' else ''false'')))
      \<and> (map_of kwargs ''invoiced'' = Some (PBool b) \<longrightarrow>
           map_of q' ''invoiced'' = Some (PStr (if b then ''true'' else ''false''))))"
proof -
  have a: "bool_to_string (PBool True) = Inr ''true'' \<and> bool_to_string (PBool False) = Inr ''false''"
    by (simp add: bool_to_string_def)
  have p: "GetNokoTagsParameters [(''name'', PStr ''urgent''), (''billable'', PBool True)]
             = Inr [(''name'', PStr ''urgent''), (''billable'', PStr ''true'')]"
    by (simp add: GetNokoTagsParameters_def normalize_def bool_to_string_def)
  have b: "list_tags (noko tokens now T) [(''name'', PStr ''urgent''), (''billable'', PBool True)] log =
      (T \<lparr>path = ''tags'', http_method = GET,
          query_params = Some [(''name'', PStr ''urgent''), (''billable'', PStr ''true'')],
          post_args = None\<rparr>,
       log @ [\<lparr>path = ''tags'', http_method = GET,
                query_params = Some [(''name'', PStr ''urgent''), (''billable'', PStr ''true'')],
                post_args = None\<rparr>])"
    by (simp add: list_tags_def noko_def fetch_json_def p)
  have c: "GetNokoTagsParameters kwargs = Inr q \<longrightarrow>
      (unset kwargs ''billable'' \<longrightarrow> map_of q ''billable'' = None)
      \<and> (map_of kwargs ''billable'' = Some (PBool b) \<longrightarrow>
           map_of q ''billable'' = Some (PStr (if b then ''true'' else ''false'')))"
  proof
    assume "GetNokoTagsParameters kwargs = Inr q"
    then have n: "normalize [(''name'', TextField, False), (''billable'', BoolField, False)] kwargs
                    = Inr q"
      by (simp add: GetNokoTagsParameters_def)
    show "(unset kwargs ''billable'' \<longrightarrow> map_of q ''billable'' = None)
      \<and> (map_of kwargs ''billable'' = Some (PBool b) \<longrightarrow>
           map_of q ''billable'' = Some (PStr (if b then ''true'' else ''false'')))"
      using normalize_unset [OF n, of "''billable''"]
        bool_field_value [OF n, of "''billable''" False b]
      by simp
  qed
  have d: "GetNokoEntriesParameters tokens kwargs = Inr q' \<longrightarrow>
      (unset kwargs ''billable'' \<longrightarrow> map_of q' ''billable'' = None)
      \<and> (unset kwargs ''invoiced'' \<longrightarrow> map_of q' ''invoiced'' = None)
      \<and> (map_of kwargs ''billable'' = Some (PBool b) \<longrightarrow>
           map_of q' ''billable'' = Some (PStr (if b then ''true'' else ''false'')))
      \<and> (map_of kwargs ''invoiced'' = Some (PBool b) \<longrightarrow>
           map_of q' ''invoiced'' = Some (PStr (if b then ''true'' else ''false'')))"
  proof
    assume g: "GetNokoEntriesParameters tokens kwargs = Inr q'"
    note n = g [unfolded GetNokoEntriesParameters_def]
    have 1: "unset kwargs ''billable'' \<longrightarrow> map_of q' ''billable'' = None"
      using normalize_unset [OF n, of "''billable''"] by blast
    have 2: "unset kwargs ''invoiced'' \<longrightarrow> map_of q' ''invoiced'' = None"
      using normalize_unset [OF n, of "''invoiced''"] by blast
    have 3: "map_of kwargs ''billable'' = Some (PBool b) \<longrightarrow>
           map_of q' ''billable'' = Some (PStr (if b then ''true'' else ''false''))"
      using bool_field_value [OF n _ distinct_entries_fields, of "''billable''" False b]
      by simp
    have 4: "map_of kwargs ''invoiced'' = Some (PBool b) \<longrightarrow>
           map_of q' ''invoiced'' = Some (PStr (if b then ''true'' else ''false''))"
      using bool_field_value [OF n _ distinct_entries_fields, of "''invoiced''" False b]
      by simp
    show "(unset kwargs ''billable'' \<longrightarrow> map_of q' ''billable'' = None)
      \<and> (unset kwargs ''invoiced'' \<longrightarrow> map_of q' ''invoiced'' = None)
      \<and> (map_of kwargs ''billable'' = Some (PBool b) \<longrightarrow>
           map_of q' ''billable'' = Some (PStr (if b then ''true'' else ''false'')))
      \<and> (map_of kwargs ''invoiced'' = Some (PBool b) \<longrightarrow>
           map_of q' ''invoiced'' = Some (PStr (if b then ''true'' else ''false'')))"
      using 1 2 3 4 by blast
  qed
  show ?thesis using a b c d by blast
qed

section \<open>The claims\<close>

text \<open>
  C1. Whenever the date normalises to \<open>d\<close>, \<^verbatim>\<open>mark_as_invoiced\<close> with a scalar
  identifier issues exactly one PUT to \<^verbatim>\<open>entries/{id}/mark_as_invoiced\<close> whose body is
  \<^verbatim>\<open>{"date": d}\<close>; with a list whose elements coerce to the integers \<open>ns\<close> it issues
  exactly one PUT to \<^verbatim>\<open>entries/mark_as_invoiced\<close> whose body is
  \<^verbatim>\<open>{"date": d, "entry_ids": ns}\<close>, the integers in the order the helper returned them.
  An integer identifier is interpolated in decimal, a string as it is. The helpers are
  arbitrary here; the example below runs the two calls with the modelled ones.
\<close>

theorem mark_as_invoiced_request:
  assumes "d_date_to_string D date = Inr d"
  shows "snd (mark_as_invoiced D (Scalar i) date log) =
           log @ [\<lparr>path = ''entries/'' @ format_id i @ ''/mark_as_invoiced'',
                    http_method = PUT, query_params = None,
                    post_args = Some [(''date'', PStr d)]\<rparr>]
       \<and> (d_list_to_list_of_integers D xs = Inr ns \<longrightarrow>
          snd (mark_as_invoiced D (IdList xs) date log) =
           log @ [\<lparr>path = ''entries/mark_as_invoiced'',
                    http_method = PUT, query_params = None,
                    post_args = Some [(''date'', PStr d),
                                      (''entry_ids'', PList (map PInt ns))]\<rparr>])
       \<and> format_id (IntId n) = str_int n \<and> format_id (StrId s) = s"
  using assms by (simp add: mark_as_invoiced_def fetch_json_stmt_snd Let_def)

theorem mark_as_invoiced_request_witness:
  "d_date_to_string noko_example (PStr ''2024-01-01'') = Inr ''2024-01-01''
   \<and> d_list_to_list_of_integers noko_example [PInt 5, PInt 6, PStr ''7''] = Inr [5, 6, 7]
   \<and> snd (mark_as_invoiced noko_example (Scalar (IntId 5)) (PStr ''2024-01-01'') [])
       = [\<lparr>path = ''entries/5/mark_as_invoiced'', http_method = PUT, query_params = None,
           post_args = Some [(''date'', PStr ''2024-01-01'')]\<rparr>]
   \<and> snd (mark_as_invoiced noko_example (IdList [PInt 5, PInt 6, PStr ''7''])
            (PStr ''2024-01-01'') [])
       = [\<lparr>path = ''entries/mark_as_invoiced'', http_method = PUT, query_params = None,
           post_args = Some [(''date'', PStr ''2024-01-01''),
                             (''entry_ids'', PList [PInt 5, PInt 6, PInt 7])]\<rparr>]"
proof -
  have d1: "d_date_to_string noko_example (PStr ''2024-01-01'') = Inr ''2024-01-01''"
    by (simp add: noko_example_fields example_dates)
  have d2: "d_list_to_list_of_integers noko_example [PInt 5, PInt 6, PStr ''7''] = Inr [5, 6, 7]"
    by (simp only: noko_example_fields example_ids)
  from mark_as_invoiced_request
    [OF d1, of "IntId 5" "[]" "[PInt 5, PInt 6, PStr ''7'']" "[5, 6, 7]" 5 "''5''"] d1 d2
  show ?thesis by (simp add: str_int_values)
qed

text \<open>
  C2. In every method that normalises its arguments, a failure of the normaliser is what
  the caller gets, and the log of requests is unchanged: nothing reaches the transport.
  This covers the four schema-backed methods and the tag-entries listing, a date or
  timestamp that does not normalise, and an identifier list with an element that does not
  coerce (also when the date or timestamp before it normalised). The statement holds for any
  normaliser, so for every way it can fail: an unknown field, a wrong type, an invalid
  enumeration value, a non-coercible identifier.
\<close>

theorem normalizer_failure_sends_nothing:
  "(d_GetNokoEntriesParameters D kwargs = Inl e \<longrightarrow>
      list_entries D kwargs log = (Inl e, log)
      \<and> get_all_entries_for_tag D tag_id kwargs log = (Inl e, log))
 \<and> (d_CreateNokoEntryParameters D kwargs = Inl e \<longrightarrow> create_entry D kwargs log = (Inl e, log))
 \<and> (d_EditNokoEntryParameters D kwargs = Inl e \<longrightarrow>
      edit_entry D entry_id kwargs log = (Inl e, log))
 \<and> (d_GetNokoTagsParameters D kwargs = Inl e \<longrightarrow> list_tags D kwargs log = (Inl e, log))
 \<and> (d_date_to_string D date = Inl e \<longrightarrow> mark_as_invoiced D entry_ids date log = (Inl e, log))
 \<and> (d_timestamp_to_string D approved_at = Inl e \<longrightarrow>
      mark_as_approved D entry_ids approved_at log = (Inl e, log))
 \<and> (d_list_to_list_of_integers D xs = Inl e \<longrightarrow>
      delete_tags D xs log = (Inl e, log)
      \<and> mark_as_unapproved D (IdList xs) log = (Inl e, log)
      \<and> (\<forall>d. d_date_to_string D date = Inr d \<longrightarrow>
            mark_as_invoiced D (IdList xs) date log = (Inl e, log))
      \<and> (\<forall>ts. d_timestamp_to_string D approved_at = Inr ts \<longrightarrow>
            mark_as_approved D (IdList xs) approved_at log = (Inl e, log)))"
  by (simp add: list_entries_def get_all_entries_for_tag_def create_entry_def edit_entry_def
      list_tags_def mark_as_invoiced_def mark_as_approved_def mark_as_unapproved_def
      delete_tags_def Let_def)

theorem normalizer_failure_sends_nothing_witness:
  "d_GetNokoEntriesParameters noko_example [(''bogus'', PInt 1)] = Inl (ValidationError ''bogus'')
   \<and> list_entries noko_example [(''bogus'', PInt 1)] [] = (Inl (ValidationError ''bogus''), [])
   \<and> d_GetNokoEntriesParameters noko_example [(''tag_filter_type'', PStr ''xor'')]
       = Inl (ValidationError ''tag_filter_type'')
   \<and> get_all_entries_for_tag noko_example (IntId 5) [(''tag_filter_type'', PStr ''xor'')] []
       = (Inl (ValidationError ''tag_filter_type''), [])
   \<and> d_CreateNokoEntryParameters noko_example [(''minutes'', PInt 30)]
       = Inl (ValidationError ''date'')
   \<and> create_entry noko_example [(''minutes'', PInt 30)] [] = (Inl (ValidationError ''date''), [])
   \<and> d_EditNokoEntryParameters noko_example [(''minutes'', PStr ''soon'')]
       = Inl (ValidationError ''minutes'')
   \<and> edit_entry noko_example (IntId 5) [(''minutes'', PStr ''soon'')] []
       = (Inl (ValidationError ''minutes''), [])
   \<and> d_GetNokoTagsParameters noko_example [(''billable'', PStr ''yes'')]
       = Inl (ValidationError ''billable'')
   \<and> list_tags noko_example [(''billable'', PStr ''yes'')] []
       = (Inl (ValidationError ''billable''), [])
   \<and> d_date_to_string noko_example (PStr ''2024-13-01'') = Inl (ValidationError ''date'')
   \<and> mark_as_invoiced noko_example (Scalar (IntId 5)) (PStr ''2024-13-01'') []
       = (Inl (ValidationError ''date''), [])
   \<and> d_timestamp_to_string noko_example (PStr ''yesterday'') = Inl (ValidationError ''timestamp'')
   \<and> mark_as_approved noko_example (Scalar (IntId 5)) (PStr ''yesterday'') []
       = (Inl (ValidationError ''timestamp''), [])
   \<and> d_list_to_list_of_integers noko_example [PInt 1, PStr ''abc''] = Inl (ValidationError ''id'')
   \<and> delete_tags noko_example [PInt 1, PStr ''abc''] [] = (Inl (ValidationError ''id''), [])
   \<and> mark_as_unapproved noko_example (IdList [PInt 1, PStr ''abc'']) []
       = (Inl (ValidationError ''id''), [])
   \<and> mark_as_invoiced noko_example (IdList [PInt 1, PStr ''abc'']) (PStr ''2024-01-01'') []
       = (Inl (ValidationError ''id''), [])
   \<and> mark_as_approved noko_example (IdList [PInt 1, PStr ''abc'']) PNone []
       = (Inl (ValidationError ''id''), [])"
proof -
  let ?D = "noko_example"
  have a: "d_GetNokoEntriesParameters ?D [(''bogus'', PInt 1)] = Inl (ValidationError ''bogus'')"
    by (simp add: noko_example_fields GetNokoEntriesParameters_def normalize_def)
  have b: "d_GetNokoEntriesParameters ?D [(''tag_filter_type'', PStr ''xor'')]
       = Inl (ValidationError ''tag_filter_type'')"
    by (simp add: noko_example_fields GetNokoEntriesParameters_def normalize_def)
  have c: "d_CreateNokoEntryParameters ?D [(''minutes'', PInt 30)] = Inl (ValidationError ''date'')"
    by (simp add: noko_example_fields CreateNokoEntryParameters_def entry_fields_def
        normalize_def)
  have d: "d_EditNokoEntryParameters ?D [(''minutes'', PStr ''soon'')]
       = Inl (ValidationError ''minutes'')"
    by (simp add: noko_example_fields EditNokoEntryParameters_def entry_fields_def
        normalize_def)
  have e: "d_GetNokoTagsParameters ?D [(''billable'', PStr ''yes'')]
       = Inl (ValidationError ''billable'')"
    by (simp add: noko_example_fields GetNokoTagsParameters_def normalize_def
        bool_to_string_def)
  have f: "d_date_to_string ?D (PStr ''2024-13-01'') = Inl (ValidationError ''date'')"
    by (simp add: noko_example_fields example_dates)
  have g: "d_timestamp_to_string ?D (PStr ''yesterday'') = Inl (ValidationError ''timestamp'')"
    by (simp add: noko_example_fields timestamp_to_string_def example_dates)
  have h: "d_list_to_list_of_integers ?D [PInt 1, PStr ''abc''] = Inl (ValidationError ''id'')"
    by (simp only: noko_example_fields example_ids)
  have i: "d_date_to_string ?D (PStr ''2024-01-01'') = Inr ''2024-01-01''"
    by (simp add: noko_example_fields example_dates)
  have j: "d_timestamp_to_string ?D PNone = Inr (strftime_timestamp clock_example)"
    by (simp add: noko_example_fields timestamp_to_string_def)
  have 1: "list_entries ?D [(''bogus'', PInt 1)] [] = (Inl (ValidationError ''bogus''), [])"
    using normalizer_failure_sends_nothing
      [of ?D "[(''bogus'', PInt 1)]" "ValidationError ''bogus''" "[]"] a
    by simp
  have 2: "get_all_entries_for_tag ?D (IntId 5) [(''tag_filter_type'', PStr ''xor'')] []
       = (Inl (ValidationError ''tag_filter_type''), [])"
    using normalizer_failure_sends_nothing
      [of ?D "[(''tag_filter_type'', PStr ''xor'')]" "ValidationError ''tag_filter_type''" "[]"
          "IntId 5"] b
    by simp
  have 3: "create_entry ?D [(''minutes'', PInt 30)] [] = (Inl (ValidationError ''date''), [])"
    using normalizer_failure_sends_nothing
      [of ?D "[(''minutes'', PInt 30)]" "ValidationError ''date''" "[]"] c
    by simp
  have 4: "edit_entry ?D (IntId 5) [(''minutes'', PStr ''soon'')] []
       = (Inl (ValidationError ''minutes''), [])"
    using normalizer_failure_sends_nothing
      [of ?D "[(''minutes'', PStr ''soon'')]" "ValidationError ''minutes''" "[]" _ "IntId 5"] d
    by simp
  have 5: "list_tags ?D [(''billable'', PStr ''yes'')] [] = (Inl (ValidationError ''billable''), [])"
    using normalizer_failure_sends_nothing
      [of ?D "[(''billable'', PStr ''yes'')]" "ValidationError ''billable''" "[]"] e
    by simp
  have 6: "mark_as_invoiced ?D (Scalar (IntId 5)) (PStr ''2024-13-01'') []
       = (Inl (ValidationError ''date''), [])"
    using normalizer_failure_sends_nothing
      [of ?D _ "ValidationError ''date''" "[]" _ _ "PStr ''2024-13-01''" "Scalar (IntId 5)"] f
    by simp
  have 7: "mark_as_approved ?D (Scalar (IntId 5)) (PStr ''yesterday'') []
       = (Inl (ValidationError ''timestamp''), [])"
    using normalizer_failure_sends_nothing
      [of ?D _ "ValidationError ''timestamp''" "[]" _ _ _ "Scalar (IntId 5)" "PStr ''yesterday''"]
      g
    by simp
  have 8: "delete_tags ?D [PInt 1, PStr ''abc''] [] = (Inl (ValidationError ''id''), [])
     \<and> mark_as_unapproved ?D (IdList [PInt 1, PStr ''abc'']) [] = (Inl (ValidationError ''id''), [])
     \<and> mark_as_invoiced ?D (IdList [PInt 1, PStr ''abc'']) (PStr ''2024-01-01'') []
         = (Inl (ValidationError ''id''), [])
     \<and> mark_as_approved ?D (IdList [PInt 1, PStr ''abc'']) PNone []
         = (Inl (ValidationError ''id''), [])"
    using normalizer_failure_sends_nothing
      [of ?D _ "ValidationError ''id''" "[]" _ _ "PStr ''2024-01-01''" _ PNone
          "[PInt 1, PStr ''abc'']"] h i j
    by simp
  show ?thesis using a b c d e f g h 1 2 3 4 5 6 7 8 by simp
qed

text \<open>
  C3. Let the elements of \<open>xs\<close> coerce, one by one and in order, to the integers \<open>ns\<close>
  (integers coerce to themselves, a decimal string to the integer it denotes). Then the
  array form is \<open>ns\<close>, and it is what \<^verbatim>\<open>delete_tags\<close> sends as \<^verbatim>\<open>tag_ids\<close> and what the
  bulk requests of \<^verbatim>\<open>mark_as_unapproved\<close> and \<^verbatim>\<open>mark_as_invoiced\<close> send as
  \<^verbatim>\<open>entry_ids\<close>. An \<^verbatim>\<open>entry_ids\<close> that is not a list is not turned into an array: it is
  interpolated into the per-record path and the body has no \<^verbatim>\<open>entry_ids\<close>. The query form
  of \<open>xs\<close> is the decimal renderings of \<open>ns\<close> joined by commas. That string is canonical:
  normalising it again returns it, and splitting it at the commas and coercing gives \<open>ns\<close>
  back. A comma-separated string normalises like the list of its parts, and a single
  identifier, integer or string, normalises to its decimal rendering. Whatever the form of
  the input, the entry listings send the normalised string under \<^verbatim>\<open>user_ids\<close>,
  \<^verbatim>\<open>project_ids\<close> or \<^verbatim>\<open>tag_ids\<close>.
\<close>

theorem id_list_normalization:
  assumes "list_all2 (\<lambda>x n. to_int x = Inr n) xs ns"
  shows "list_to_list_of_integers xs = Inr ns
       \<and> snd (delete_tags (noko tokens now T) xs log) =
           log @ [\<lparr>path = ''tags/delete'', http_method = DELETE, query_params = None,
                    post_args = Some [(''tag_ids'', PList (map PInt ns))]\<rparr>]
       \<and> snd (mark_as_unapproved (noko tokens now T) (IdList xs) log) =
           log @ [\<lparr>path = ''entries/unapproved'', http_method = PUT, query_params = None,
                    post_args = Some [(''entry_ids'', PList (map PInt ns))]\<rparr>]
       \<and> (date_to_string date = Inr d \<longrightarrow>
            snd (mark_as_invoiced (noko tokens now T) (IdList xs) date log) =
              log @ [\<lparr>path = ''entries/mark_as_invoiced'', http_method = PUT,
                       query_params = None,
                       post_args = Some [(''date'', PStr d),
                                         (''entry_ids'', PList (map PInt ns))]\<rparr>])
       \<and> snd (mark_as_unapproved (noko tokens now T) (Scalar i) log) =
           log @ [\<lparr>path = ''entries/'' @ format_id i @ ''/unapproved'', http_method = PUT,
                    query_params = None, post_args = Some []\<rparr>]
       \<and> (date_to_string date = Inr d \<longrightarrow>
            snd (mark_as_invoiced (noko tokens now T) (Scalar i) date log) =
              log @ [\<lparr>path = ''entries/'' @ format_id i @ ''/mark_as_invoiced'',
                       http_method = PUT, query_params = None,
                       post_args = Some [(''date'', PStr d)]\<rparr>])
       \<and> id_list_to_string (PList xs) = Inr (join_commas (map str_int ns))
       \<and> (ns \<noteq> [] \<longrightarrow>
            id_list_to_string (PStr (join_commas (map str_int ns)))
              = Inr (join_commas (map str_int ns))
          \<and> list_to_list_of_integers (map PStr (split_commas (join_commas (map str_int ns))))
              = Inr ns)
       \<and> (ws \<noteq> [] \<and> (\<forall>w \<in> set ws. CHR '','' \<notin> set w) \<longrightarrow>
            id_list_to_string (PStr (join_commas ws)) = id_list_to_string (PList (map PStr ws)))
       \<and> id_list_to_string (PInt n) = Inr (str_int n)
       \<and> (to_int (PStr s) = Inr n \<longrightarrow> id_list_to_string (PStr s) = Inr (str_int n))
       \<and> to_int (PInt n) = Inr n \<and> to_int (PStr (str_int n)) = Inr n
       \<and> ((k = ''user_ids'' \<or> k = ''project_ids'' \<or> k = ''tag_ids'')
            \<and> id_list_to_string v = Inr c \<longrightarrow>
            snd (list_entries (noko tokens now T) [(k, v)] log) =
              log @ [\<lparr>path = ''entries'', http_method = GET,
                       query_params = Some [(k, PStr c)], post_args = None\<rparr>]
          \<and> snd (get_all_entries_for_tag (noko tokens now T) i [(k, v)] log) =
              log @ [\<lparr>path = ''tags/'' @ format_id i @ ''/entries'', http_method = GET,
                       query_params = Some [(k, PStr c)], post_args = None\<rparr>])"
proof -
  note forms = id_list_forms [OF assms, of ws n s]
  from forms have a: "list_to_list_of_integers xs = Inr ns" by blast
  have 1: "snd (delete_tags (noko tokens now T) xs log) =
           log @ [\<lparr>path = ''tags/delete'', http_method = DELETE, query_params = None,
                    post_args = Some [(''tag_ids'', PList (map PInt ns))]\<rparr>]"
    using a by (simp add: delete_tags_def noko_def fetch_json_stmt_snd)
  have 2: "snd (mark_as_unapproved (noko tokens now T) (IdList xs) log) =
           log @ [\<lparr>path = ''entries/unapproved'', http_method = PUT, query_params = None,
                    post_args = Some [(''entry_ids'', PList (map PInt ns))]\<rparr>]"
    using a by (simp add: mark_as_unapproved_def noko_def fetch_json_stmt_snd Let_def)
  have 3: "date_to_string date = Inr d \<longrightarrow>
            snd (mark_as_invoiced (noko tokens now T) (IdList xs) date log) =
              log @ [\<lparr>path = ''entries/mark_as_invoiced'', http_method = PUT,
                       query_params = None,
                       post_args = Some [(''date'', PStr d),
                                         (''entry_ids'', PList (map PInt ns))]\<rparr>]"
    using a by (simp add: mark_as_invoiced_def noko_def fetch_json_stmt_snd Let_def)
  have 4: "snd (mark_as_unapproved (noko tokens now T) (Scalar i) log) =
           log @ [\<lparr>path = ''entries/'' @ format_id i @ ''/unapproved'', http_method = PUT,
                    query_params = None, post_args = Some []\<rparr>]"
    by (simp add: mark_as_unapproved_def fetch_json_stmt_snd Let_def)
  have 5: "date_to_string date = Inr d \<longrightarrow>
            snd (mark_as_invoiced (noko tokens now T) (Scalar i) date log) =
              log @ [\<lparr>path = ''entries/'' @ format_id i @ ''/mark_as_invoiced'',
                       http_method = PUT, query_params = None,
                       post_args = Some [(''date'', PStr d)]\<rparr>]"
    by (simp add: mark_as_invoiced_def noko_def fetch_json_stmt_snd Let_def)
  have 6: "(k = ''user_ids'' \<or> k = ''project_ids'' \<or> k = ''tag_ids'')
            \<and> id_list_to_string v = Inr c \<longrightarrow>
            snd (list_entries (noko tokens now T) [(k, v)] log) =
              log @ [\<lparr>path = ''entries'', http_method = GET,
                       query_params = Some [(k, PStr c)], post_args = None\<rparr>]
          \<and> snd (get_all_entries_for_tag (noko tokens now T) i [(k, v)] log) =
              log @ [\<lparr>path = ''tags/'' @ format_id i @ ''/entries'', http_method = GET,
                       query_params = Some [(k, PStr c)], post_args = None\<rparr>]"
  proof
    assume h: "(k = ''user_ids'' \<or> k = ''project_ids'' \<or> k = ''tag_ids'')
            \<and> id_list_to_string v = Inr c"
    then have g: "GetNokoEntriesParameters tokens [(k, v)] = Inr [(k, PStr c)]"
      using entries_id_list_field [of v c k tokens] by blast
    show "snd (list_entries (noko tokens now T) [(k, v)] log) =
              log @ [\<lparr>path = ''entries'', http_method = GET,
                       query_params = Some [(k, PStr c)], post_args = None\<rparr>]
          \<and> snd (get_all_entries_for_tag (noko tokens now T) i [(k, v)] log) =
              log @ [\<lparr>path = ''tags/'' @ format_id i @ ''/entries'', http_method = GET,
                       query_params = Some [(k, PStr c)], post_args = None\<rparr>]"
      by (simp add: list_entries_sends [OF g] get_all_entries_for_tag_sends [OF g])
  qed
  show ?thesis using forms 1 2 3 4 5 6 by blast
qed

theorem id_list_normalization_witness:
  "list_all2 (\<lambda>x n. to_int x = Inr n) [PInt 5, PInt 6, PStr ''7''] [5, 6, 7]
   \<and> list_to_list_of_integers [PInt 5, PInt 6, PStr ''7''] = Inr [5, 6, 7]
   \<and> snd (delete_tags noko_example [PInt 5, PInt 6, PStr ''7''] [])
       = [\<lparr>path = ''tags/delete'', http_method = DELETE, query_params = None,
           post_args = Some [(''tag_ids'', PList [PInt 5, PInt 6, PInt 7])]\<rparr>]
   \<and> snd (mark_as_unapproved noko_example (IdList [PInt 5, PInt 6, PStr ''7'']) [])
       = [\<lparr>path = ''entries/unapproved'', http_method = PUT, query_params = None,
           post_args = Some [(''entry_ids'', PList [PInt 5, PInt 6, PInt 7])]\<rparr>]
   \<and> date_to_string (PStr ''2024-01-01'') = Inr ''2024-01-01''
   \<and> snd (mark_as_invoiced noko_example (IdList [PInt 5, PInt 6, PStr ''7''])
            (PStr ''2024-01-01'') [])
       = [\<lparr>path = ''entries/mark_as_invoiced'', http_method = PUT, query_params = None,
           post_args = Some [(''date'', PStr ''2024-01-01''),
                             (''entry_ids'', PList [PInt 5, PInt 6, PInt 7])]\<rparr>]
   \<and> snd (mark_as_unapproved noko_example (Scalar (IntId 5)) [])
       = [\<lparr>path = ''entries/5/unapproved'', http_method = PUT, query_params = None,
           post_args = Some []\<rparr>]
   \<and> snd (mark_as_invoiced noko_example (Scalar (IntId 5)) (PStr ''2024-01-01'') [])
       = [\<lparr>path = ''entries/5/mark_as_invoiced'', http_method = PUT, query_params = None,
           post_args = Some [(''date'', PStr ''2024-01-01'')]\<rparr>]
   \<and> id_list_to_string (PList [PInt 5, PInt 6, PStr ''7'']) = Inr ''5,6,7''
   \<and> id_list_to_string (PStr ''5,6,7'') = Inr ''5,6,7''
   \<and> list_to_list_of_integers (map PStr (split_commas ''5,6,7'')) = Inr [5, 6, 7]
   \<and> id_list_to_string (PStr ''5,6,7'')
       = id_list_to_string (PList [PStr ''5'', PStr ''6'', PStr ''7''])
   \<and> id_list_to_string (PInt 7) = Inr ''7''
   \<and> to_int (PStr ''007'') = Inr 7
   \<and> id_list_to_string (PStr ''007'') = Inr ''7''
   \<and> snd (list_entries noko_example [(''user_ids'', PStr ''5,6,7'')] [])
       = [\<lparr>path = ''entries'', http_method = GET,
           query_params = Some [(''user_ids'', PStr ''5,6,7'')], post_args = None\<rparr>]
   \<and> snd (list_entries noko_example [(''project_ids'', PList [PInt 5, PInt 6, PStr ''7''])] [])
       = [\<lparr>path = ''entries'', http_method = GET,
           query_params = Some [(''project_ids'', PStr ''5,6,7'')], post_args = None\<rparr>]
   \<and> snd (get_all_entries_for_tag noko_example (IntId 5) [(''tag_ids'', PInt 7)] [])
       = [\<lparr>path = ''tags/5/entries'', http_method = GET,
           query_params = Some [(''tag_ids'', PStr ''7'')], post_args = None\<rparr>]"
proof -
  have h: "list_all2 (\<lambda>x n. to_int x = Inr n) [PInt 5, PInt 6, PStr ''7''] [5, 6, 7]"
    by (simp add: parse_int_def parse_nat_def digit_val_def)
  have s: "to_int (PStr ''007'') = Inr 7" by (rule example_ids)
  have d: "date_to_string (PStr ''2024-01-01'') = Inr ''2024-01-01''"
    by (simp add: example_dates)
  note t = id_list_normalization
    [OF h, where tokens = "[''and'']" and now = clock_example and T = transport_example
      and log = "[]" and date = "PStr ''2024-01-01''" and d = "''2024-01-01''"
      and i = "IntId 5" and ws = "[''5'', ''6'', ''7'']" and n = 7 and s = "''007''"]
  have 1: "list_to_list_of_integers [PInt 5, PInt 6, PStr ''7''] = Inr [5, 6, 7]
   \<and> snd (delete_tags noko_example [PInt 5, PInt 6, PStr ''7''] [])
       = [\<lparr>path = ''tags/delete'', http_method = DELETE, query_params = None,
           post_args = Some [(''tag_ids'', PList [PInt 5, PInt 6, PInt 7])]\<rparr>]
   \<and> snd (mark_as_unapproved noko_example (IdList [PInt 5, PInt 6, PStr ''7'']) [])
       = [\<lparr>path = ''entries/unapproved'', http_method = PUT, query_params = None,
           post_args = Some [(''entry_ids'', PList [PInt 5, PInt 6, PInt 7])]\<rparr>]
   \<and> snd (mark_as_invoiced noko_example (IdList [PInt 5, PInt 6, PStr ''7''])
            (PStr ''2024-01-01'') [])
       = [\<lparr>path = ''entries/mark_as_invoiced'', http_method = PUT, query_params = None,
           post_args = Some [(''date'', PStr ''2024-01-01''),
                             (''entry_ids'', PList [PInt 5, PInt 6, PInt 7])]\<rparr>]
   \<and> snd (mark_as_unapproved noko_example (Scalar (IntId 5)) [])
       = [\<lparr>path = ''entries/5/unapproved'', http_method = PUT, query_params = None,
           post_args = Some []\<rparr>]
   \<and> snd (mark_as_invoiced noko_example (Scalar (IntId 5)) (PStr ''2024-01-01'') [])
       = [\<lparr>path = ''entries/5/mark_as_invoiced'', http_method = PUT, query_params = None,
           post_args = Some [(''date'', PStr ''2024-01-01'')]\<rparr>]
   \<and> id_list_to_string (PList [PInt 5, PInt 6, PStr ''7'']) = Inr ''5,6,7''
   \<and> id_list_to_string (PStr ''5,6,7'') = Inr ''5,6,7''
   \<and> list_to_list_of_integers (map PStr (split_commas ''5,6,7'')) = Inr [5, 6, 7]
   \<and> id_list_to_string (PStr ''5,6,7'')
       = id_list_to_string (PList [PStr ''5'', PStr ''6'', PStr ''7''])
   \<and> id_list_to_string (PInt 7) = Inr ''7''
   \<and> id_list_to_string (PStr ''007'') = Inr ''7''"
    using t [where k = "''user_ids''" and v = "PStr ''5,6,7''" and c = "''5,6,7''"] s d
    by (simp add: noko_example_def str_int_values)
  have c1: "id_list_to_string (PStr ''5,6,7'') = Inr ''5,6,7''" using 1 by blast
  have c2: "id_list_to_string (PList [PInt 5, PInt 6, PStr ''7'']) = Inr ''5,6,7''"
    using 1 by blast
  have c3: "id_list_to_string (PInt 7) = Inr ''7''" using 1 by blast
  have 2: "snd (list_entries noko_example [(''user_ids'', PStr ''5,6,7'')] [])
       = [\<lparr>path = ''entries'', http_method = GET,
           query_params = Some [(''user_ids'', PStr ''5,6,7'')], post_args = None\<rparr>]"
    using t [where k = "''user_ids''" and v = "PStr ''5,6,7''" and c = "''5,6,7''"] c1
    by (simp add: noko_example_def)
  have 3: "snd (list_entries noko_example [(''project_ids'', PList [PInt 5, PInt 6, PStr ''7''])] [])
       = [\<lparr>path = ''entries'', http_method = GET,
           query_params = Some [(''project_ids'', PStr ''5,6,7'')], post_args = None\<rparr>]"
    using t [where k = "''project_ids''" and v = "PList [PInt 5, PInt 6, PStr ''7'']"
        and c = "''5,6,7''"] c2
    by (simp add: noko_example_def)
  have 4: "snd (get_all_entries_for_tag noko_example (IntId 5) [(''tag_ids'', PInt 7)] [])
       = [\<lparr>path = ''tags/5/entries'', http_method = GET,
           query_params = Some [(''tag_ids'', PStr ''7'')], post_args = None\<rparr>]"
    using t [where k = "''tag_ids''" and v = "PInt 7" and c = "''7''"] c3
    by (simp add: noko_example_def str_int_values)
  show ?thesis using h s d 1 2 3 4 by blast
qed

text \<open>
  The integer array is not produced for every form of input. The comma-separated string
  \<^verbatim>\<open>"5,6"\<close> is an accepted list of identifiers for a query parameter, yet as
  \<^verbatim>\<open>entry_ids\<close> it is not a list: \<^verbatim>\<open>mark_as_unapproved\<close> and \<^verbatim>\<open>mark_as_invoiced\<close>
  put it into the path and send a body without \<^verbatim>\<open>entry_ids\<close>, so no request carries the
  array \<^verbatim>\<open>[5, 6]\<close>; the scalar \<^verbatim>\<open>5\<close> likewise gives no array \<^verbatim>\<open>[5]\<close>.
\<close>

theorem id_list_array_counterexample:
  "id_list_to_string (PStr ''5,6'') = Inr ''5,6''
   \<and> snd (mark_as_unapproved noko_example (Scalar (StrId ''5,6'')) [])
       = [\<lparr>path = ''entries/5,6/unapproved'', http_method = PUT, query_params = None,
           post_args = Some []\<rparr>]
   \<and> snd (mark_as_invoiced noko_example (Scalar (StrId ''5,6'')) (PStr ''2024-01-01'') [])
       = [\<lparr>path = ''entries/5,6/mark_as_invoiced'', http_method = PUT, query_params = None,
           post_args = Some [(''date'', PStr ''2024-01-01'')]\<rparr>]
   \<and> snd (mark_as_invoiced noko_example (Scalar (IntId 5)) (PStr ''2024-01-01'') [])
       = [\<lparr>path = ''entries/5/mark_as_invoiced'', http_method = PUT, query_params = None,
           post_args = Some [(''date'', PStr ''2024-01-01'')]\<rparr>]
   \<and> map_of ([] :: pydict) ''entry_ids'' \<noteq> Some (PList [PInt 5, PInt 6])
   \<and> map_of [(''date'', PStr ''2024-01-01'')] ''entry_ids'' \<noteq> Some (PList [PInt 5, PInt 6])
   \<and> map_of [(''date'', PStr ''2024-01-01'')] ''entry_ids'' \<noteq> Some (PList [PInt 5])"
proof -
  have a: "id_list_to_string (PStr ''5,6'') = Inr ''5,6''"
    by (simp add: parse_int_def parse_nat_def digit_val_def str_int_values)
  have d: "d_date_to_string noko_example (PStr ''2024-01-01'') = Inr ''2024-01-01''"
    by (simp add: noko_example_fields example_dates)
  have b: "snd (mark_as_unapproved noko_example (Scalar (StrId ''5,6'')) [])
       = [\<lparr>path = ''entries/5,6/unapproved'', http_method = PUT, query_params = None,
           post_args = Some []\<rparr>]"
    by (simp add: mark_as_unapproved_def fetch_json_stmt_snd Let_def)
  have c: "snd (mark_as_invoiced noko_example (Scalar (StrId ''5,6'')) (PStr ''2024-01-01'') [])
       = [\<lparr>path = ''entries/5,6/mark_as_invoiced'', http_method = PUT, query_params = None,
           post_args = Some [(''date'', PStr ''2024-01-01'')]\<rparr>]"
    using d by (simp add: mark_as_invoiced_def fetch_json_stmt_snd Let_def)
  have e: "snd (mark_as_invoiced noko_example (Scalar (IntId 5)) (PStr ''2024-01-01'') [])
       = [\<lparr>path = ''entries/5/mark_as_invoiced'', http_method = PUT, query_params = None,
           post_args = Some [(''date'', PStr ''2024-01-01'')]\<rparr>]"
    using d by (simp add: mark_as_invoiced_def fetch_json_stmt_snd Let_def str_int_values)
  show ?thesis using a b c e by simp
qed

text \<open>
  C4. A string accepted as \<^verbatim>\<open>YYYY-MM-DD\<close> (as \<^verbatim>\<open>YYYY-MM-DDTHH:MM:SSZ\<close>) is returned
  unchanged, and it is exactly the rendering of the date (the instant) it parses to. A valid
  datetime value is normalised to its rendering, and parsing that rendering gives the value
  back. A string that does not parse is rejected with a validation error.
\<close>

theorem date_timestamp_normalization:
  "(strptime_date s = Some (y, m, d) \<longrightarrow>
      date_to_string (PStr s) = Inr s
      \<and> strftime_date \<lparr>year = y, month = m, day = d, hour = h, minute = mi, second = sec\<rparr> = s)
 \<and> (strptime_timestamp t = Some dt' \<longrightarrow>
      timestamp_to_string now (PStr t) = Inr t \<and> strftime_timestamp dt' = t)
 \<and> (valid_datetime dt \<longrightarrow>
      date_to_string (PDateTime dt) = Inr (strftime_date dt)
      \<and> strptime_date (strftime_date dt) = Some (year dt, month dt, day dt)
      \<and> timestamp_to_string now (PDateTime dt) = Inr (strftime_timestamp dt)
      \<and> strptime_timestamp (strftime_timestamp dt) = Some dt)
 \<and> (strptime_date s = None \<longrightarrow> date_to_string (PStr s) = Inl (ValidationError ''date''))
 \<and> (strptime_timestamp t = None \<longrightarrow>
      timestamp_to_string now (PStr t) = Inl (ValidationError ''timestamp''))"
  by (simp add: timestamp_to_string_def strftime_strptime_date strftime_strptime_timestamp
      strptime_strftime_date strptime_strftime_timestamp valid_datetime_def)

theorem date_timestamp_normalization_witness:
  "strptime_date ''2024-01-01'' = Some (2024, 1, 1)
   \<and> date_to_string (PStr ''2024-01-01'') = Inr ''2024-01-01''
   \<and> strptime_timestamp ''2024-02-29T12:30:45Z''
       = Some \<lparr>year = 2024, month = 2, day = 29, hour = 12, minute = 30, second = 45\<rparr>
   \<and> timestamp_to_string clock_example (PStr ''2024-02-29T12:30:45Z'')
       = Inr ''2024-02-29T12:30:45Z''
   \<and> valid_datetime \<lparr>year = 2024, month = 2, day = 29, hour = 12, minute = 30, second = 45\<rparr>
   \<and> date_to_string
        (PDateTime \<lparr>year = 2024, month = 2, day = 29, hour = 12, minute = 30, second = 45\<rparr>)
       = Inr ''2024-02-29''
   \<and> timestamp_to_string clock_example
        (PDateTime \<lparr>year = 2024, month = 2, day = 29, hour = 12, minute = 30, second = 45\<rparr>)
       = Inr ''2024-02-29T12:30:45Z''
   \<and> strptime_date ''2023-02-29'' = None
   \<and> date_to_string (PStr ''2023-02-29'') = Inl (ValidationError ''date'')
   \<and> strptime_timestamp ''2024-02-29 12:30:45'' = None
   \<and> timestamp_to_string clock_example (PStr ''2024-02-29 12:30:45'')
       = Inl (ValidationError ''timestamp'')"
proof -
  let ?dt = "\<lparr>year = 2024, month = 2, day = 29, hour = 12, minute = 30, second = 45\<rparr>"
  from date_timestamp_normalization
    [of "''2024-01-01''" 2024 1 1 0 0 0 "''2024-02-29T12:30:45Z''" ?dt clock_example ?dt]
  have 1: "date_to_string (PStr ''2024-01-01'') = Inr ''2024-01-01''"
    and 2: "timestamp_to_string clock_example (PStr ''2024-02-29T12:30:45Z'')
             = Inr ''2024-02-29T12:30:45Z''"
    and 3: "date_to_string (PDateTime ?dt) = Inr ''2024-02-29''"
    and 4: "timestamp_to_string clock_example (PDateTime ?dt) = Inr ''2024-02-29T12:30:45Z''"
    by (simp_all only: example_dates example_strftime simp_thms)
  from date_timestamp_normalization
    [of "''2023-02-29''" 0 0 0 0 0 0 "''2024-02-29 12:30:45''" ?dt clock_example ?dt]
  have 5: "date_to_string (PStr ''2023-02-29'') = Inl (ValidationError ''date'')"
    and 6: "timestamp_to_string clock_example (PStr ''2024-02-29 12:30:45'')
             = Inl (ValidationError ''timestamp'')"
    by (simp_all only: example_dates simp_thms)
  show ?thesis
    by (simp only: example_dates 1 2 3 4 5 6 simp_thms)
qed

text \<open>
  C5. When the keyword arguments of \<^verbatim>\<open>edit_entry\<close> pass the schema with result
  \<open>data\<close>, the method issues one PUT to \<^verbatim>\<open>entries/{id}\<close> with body \<open>data\<close>; a field the
  caller left unset (missing or \<^verbatim>\<open>None\<close>) has no entry in \<open>data\<close>, and the keys of
  \<open>data\<close> are exactly the fields the caller supplied. What the remote service does with the
  absent fields is outside the model.
\<close>

theorem edit_entry_omits_unset:
  assumes "EditNokoEntryParameters kwargs = Inr data"
  shows "edit_entry (noko tokens now T) entry_id kwargs log =
           (T \<lparr>path = ''entries/'' @ format_id entry_id, http_method = PUT,
               query_params = None, post_args = Some data\<rparr>,
            log @ [\<lparr>path = ''entries/'' @ format_id entry_id, http_method = PUT,
                     query_params = None, post_args = Some data\<rparr>])
       \<and> (\<forall>k. unset kwargs k \<longrightarrow> map_of data k = None)
       \<and> (\<forall>k. k \<in> fst ` set data \<longleftrightarrow> \<not> unset kwargs k)"
proof -
  from assms have n: "normalize (entry_fields False) kwargs = Inr data"
    by (simp add: EditNokoEntryParameters_def)
  have "edit_entry (noko tokens now T) entry_id kwargs log =
           (T \<lparr>path = ''entries/'' @ format_id entry_id, http_method = PUT,
               query_params = None, post_args = Some data\<rparr>,
            log @ [\<lparr>path = ''entries/'' @ format_id entry_id, http_method = PUT,
                     query_params = None, post_args = Some data\<rparr>])"
    using assms by (simp add: edit_entry_def noko_def fetch_json_def)
  moreover have "\<forall>k. unset kwargs k \<longrightarrow> map_of data k = None"
    using normalize_unset [OF n] by blast
  moreover have "\<forall>k. k \<in> fst ` set data \<longleftrightarrow> \<not> unset kwargs k"
    using normalize_keys [OF n] by blast
  ultimately show ?thesis by blast
qed

theorem edit_entry_omits_unset_witness:
  "EditNokoEntryParameters [(''minutes'', PInt 45), (''description'', PNone)]
     = Inr [(''minutes'', PInt 45)]
   \<and> edit_entry noko_example (IntId 7) [(''minutes'', PInt 45), (''description'', PNone)] []
     = (Inr (PList [PDict [(''id'', PInt 5)]]),
        [\<lparr>path = ''entries/7'', http_method = PUT, query_params = None,
          post_args = Some [(''minutes'', PInt 45)]\<rparr>])
   \<and> unset [(''minutes'', PInt 45), (''description'', PNone)] ''description''
   \<and> unset [(''minutes'', PInt 45), (''description'', PNone)] ''date''
   \<and> map_of [(''minutes'', PInt 45)] ''description'' = None
   \<and> map_of [(''minutes'', PInt 45)] ''date'' = None"
proof -
  have h: "EditNokoEntryParameters [(''minutes'', PInt 45), (''description'', PNone)]
     = Inr [(''minutes'', PInt 45)]"
    by (simp add: EditNokoEntryParameters_def entry_fields_def normalize_def)
  from edit_entry_omits_unset
    [OF h, of "[''and'']" clock_example transport_example "IntId 7" "[]"] h
  show ?thesis
    by (simp add: unset_def noko_example_def transport_example_def str_int_values)
qed

text \<open>
  C6. A boolean filter is sent as \<^verbatim>\<open>"true"\<close> or \<^verbatim>\<open>"false"\<close>, and an unset one is left
  out of the outgoing parameters. Whenever the keyword arguments pass the schema with result
  \<open>q\<close>, \<^verbatim>\<open>list_tags\<close> issues one GET to \<^verbatim>\<open>tags\<close> whose query parameters are \<open>q\<close>, and
  \<^verbatim>\<open>list_entries\<close> and \<^verbatim>\<open>get_all_entries_for_tag\<close> issue one GET whose query
  parameters are \<open>q\<close>; in \<open>q\<close> a boolean \<^verbatim>\<open>billable\<close> or \<^verbatim>\<open>invoiced\<close> is the string
  \<^verbatim>\<open>"true"\<close> or \<^verbatim>\<open>"false"\<close>, and an unset one has no entry.
  \<^verbatim>\<open>list_tags(name="urgent", billable=True)\<close> issues one GET to \<^verbatim>\<open>tags\<close> with the
  query parameters \<^verbatim>\<open>{"name": "urgent", "billable": "true"}\<close> and nothing else.
\<close>

theorem boolean_filter_normalization:
  "bool_to_string (PBool True) = Inr ''true'' \<and> bool_to_string (PBool False) = Inr ''false''
 \<and> list_tags (noko tokens now T) [(''name'', PStr ''urgent''), (''billable'', PBool True)] log =
      (T \<lparr>path = ''tags'', http_method = GET,
          query_params = Some [(''name'', PStr ''urgent''), (''billable'', PStr ''true'')],
          post_args = None\<rparr>,
       log @ [\<lparr>path = ''tags'', http_method = GET,
                query_params = Some [(''name'', PStr ''urgent''), (''billable'', PStr ''true'')],
                post_args = None\<rparr>])
 \<and> (GetNokoTagsParameters kwargs = Inr q \<longrightarrow>
      list_tags (noko tokens now T) kwargs log =
        (T \<lparr>path = ''tags'', http_method = GET, query_params = Some q, post_args = None\<rparr>,
         log @ [\<lparr>path = ''tags'', http_method = GET, query_params = Some q,
                  post_args = None\<rparr>])
      \<and> (unset kwargs ''billable'' \<longrightarrow> map_of q ''billable'' = None)
      \<and> (map_of kwargs ''billable'' = Some (PBool b) \<longrightarrow>
           map_of q ''billable'' = Some (PStr (if b then ''true'' else ''false''))))
 \<and> (GetNokoEntriesParameters tokens kwargs = Inr q' \<longrightarrow>
      list_entries (noko tokens now T) kwargs log =
        (T \<lparr>path = ''entries'', http_method = GET, query_params = Some q', post_args = None\<rparr>,
         log @ [\<lparr>path = ''entries'', http_method = GET, query_params = Some q',
                  post_args = None\<rparr>])
      \<and> get_all_entries_for_tag (noko tokens now T) tag_id kwargs log =
        (T \<lparr>path = ''tags/'' @ format_id tag_id @ ''/entries'', http_method = GET,
            query_params = Some q', post_args = None\<rparr>,
         log @ [\<lparr>path = ''tags/'' @ format_id tag_id @ ''/entries'', http_method = GET,
                  query_params = Some q', post_args = None\<rparr>])
      \<and> (unset kwargs ''billable'' \<longrightarrow> map_of q' ''billable'' = None)
      \<and> (unset kwargs ''invoiced'' \<longrightarrow> map_of q' ''invoiced'' = None)
      \<and> (map_of kwargs ''billable'' = Some (PBool b) \<longrightarrow>
           map_of q' ''billable'' = Some (PStr (if b then ''true'' else ''false'')))
      \<and> (map_of kwargs ''invoiced'' = Some (PBool b) \<longrightarrow>
           map_of q' ''invoiced'' = Some (PStr (if b then ''true'' else ''false''))))"
proof -
  note f = boolean_filter_fields [of tokens now T log kwargs q b q']
  have 1: "GetNokoTagsParameters kwargs = Inr q \<longrightarrow>
      list_tags (noko tokens now T) kwargs log =
        (T \<lparr>path = ''tags'', http_method = GET, query_params = Some q, post_args = None\<rparr>,
         log @ [\<lparr>path = ''tags'', http_method = GET, query_params = Some q,
                  post_args = None\<rparr>])"
    using list_tags_sends by blast
  have 2: "GetNokoEntriesParameters tokens kwargs = Inr q' \<longrightarrow>
      list_entries (noko tokens now T) kwargs log =
        (T \<lparr>path = ''entries'', http_method = GET, query_params = Some q', post_args = None\<rparr>,
         log @ [\<lparr>path = ''entries'', http_method = GET, query_params = Some q',
                  post_args = None\<rparr>])"
    using list_entries_sends by blast
  have 3: "GetNokoEntriesParameters tokens kwargs = Inr q' \<longrightarrow>
      get_all_entries_for_tag (noko tokens now T) tag_id kwargs log =
        (T \<lparr>path = ''tags/'' @ format_id tag_id @ ''/entries'', http_method = GET,
            query_params = Some q', post_args = None\<rparr>,
         log @ [\<lparr>path = ''tags/'' @ format_id tag_id @ ''/entries'', http_method = GET,
                  query_params = Some q', post_args = None\<rparr>])"
    using get_all_entries_for_tag_sends by blast
  show ?thesis using f 1 2 3 by blast
qed

theorem boolean_filter_normalization_witness:
  "GetNokoTagsParameters [(''name'', PStr ''urgent'')] = Inr [(''name'', PStr ''urgent'')]
   \<and> unset [(''name'', PStr ''urgent'')] ''billable''
   \<and> map_of [(''name'', PStr ''urgent'')] ''billable'' = None
   \<and> list_tags noko_example [(''name'', PStr ''urgent'')] []
       = (Inr (PList [PDict [(''id'', PInt 5)]]),
          [\<lparr>path = ''tags'', http_method = GET,
            query_params = Some [(''name'', PStr ''urgent'')], post_args = None\<rparr>])
   \<and> GetNokoTagsParameters [(''billable'', PBool False)] = Inr [(''billable'', PStr ''false'')]
   \<and> map_of [(''billable'', PStr ''false'')] ''billable'' = Some (PStr ''false'')
   \<and> list_tags noko_example [(''billable'', PBool False)] []
       = (Inr (PList [PDict [(''id'', PInt 5)]]),
          [\<lparr>path = ''tags'', http_method = GET,
            query_params = Some [(''billable'', PStr ''false'')], post_args = None\<rparr>])
   \<and> GetNokoEntriesParameters [''and''] [(''billable'', PBool True), (''invoiced'', PBool True)]
       = Inr [(''invoiced'', PStr ''true''), (''billable'', PStr ''true'')]
   \<and> list_entries noko_example [(''billable'', PBool True), (''invoiced'', PBool True)] []
       = (Inr (PList [PDict [(''id'', PInt 5)]]),
          [\<lparr>path = ''entries'', http_method = GET,
            query_params = Some [(''invoiced'', PStr ''true''), (''billable'', PStr ''true'')],
            post_args = None\<rparr>])
   \<and> GetNokoEntriesParameters [''and''] [] = Inr []
   \<and> unset [] ''billable'' \<and> unset [] ''invoiced''
   \<and> list_entries noko_example [] []
       = (Inr (PList [PDict [(''id'', PInt 5)]]),
          [\<lparr>path = ''entries'', http_method = GET, query_params = Some [],
            post_args = None\<rparr>])
   \<and> get_all_entries_for_tag noko_example (IntId 5) [] []
       = (Inr (PList [PDict [(''id'', PInt 5)]]),
          [\<lparr>path = ''tags/5/entries'', http_method = GET, query_params = Some [],
            post_args = None\<rparr>])
   \<and> list_tags noko_example [(''name'', PStr ''urgent''), (''billable'', PBool True)] []
       = (Inr (PList [PDict [(''id'', PInt 5)]]),
          [\<lparr>path = ''tags'', http_method = GET,
            query_params = Some [(''name'', PStr ''urgent''), (''billable'', PStr ''true'')],
            post_args = None\<rparr>])"
proof -
  have h1: "GetNokoTagsParameters [(''name'', PStr ''urgent'')] = Inr [(''name'', PStr ''urgent'')]"
    by (simp add: GetNokoTagsParameters_def normalize_def)
  have h2: "unset [(''name'', PStr ''urgent'')] ''billable''"
    by (simp add: unset_def)
  have h3: "GetNokoEntriesParameters [''and''] [] = Inr []"
    by (simp add: GetNokoEntriesParameters_def normalize_def)
  have h4: "unset [] ''billable'' \<and> unset [] ''invoiced''"
    by (simp add: unset_def)
  have h5: "GetNokoTagsParameters [(''billable'', PBool False)] = Inr [(''billable'', PStr ''false'')]"
    by (simp add: GetNokoTagsParameters_def normalize_def bool_to_string_def)
  have h6: "GetNokoEntriesParameters [''and'']
              [(''billable'', PBool True), (''invoiced'', PBool True)]
       = Inr [(''invoiced'', PStr ''true''), (''billable'', PStr ''true'')]"
    by (simp add: GetNokoEntriesParameters_def normalize_def bool_to_string_def)
  note t = boolean_filter_normalization
    [where tokens = "[''and'']" and now = clock_example and T = transport_example
      and log = "[]" and tag_id = "IntId 5"]
  have 1: "map_of [(''name'', PStr ''urgent'')] ''billable'' = None
     \<and> list_tags noko_example [(''name'', PStr ''urgent'')] []
       = (Inr (PList [PDict [(''id'', PInt 5)]]),
          [\<lparr>path = ''tags'', http_method = GET,
            query_params = Some [(''name'', PStr ''urgent'')], post_args = None\<rparr>])
     \<and> list_tags noko_example [(''name'', PStr ''urgent''), (''billable'', PBool True)] []
       = (Inr (PList [PDict [(''id'', PInt 5)]]),
          [\<lparr>path = ''tags'', http_method = GET,
            query_params = Some [(''name'', PStr ''urgent''), (''billable'', PStr ''true'')],
            post_args = None\<rparr>])"
    using t [where kwargs = "[(''name'', PStr ''urgent'')]" and q = "[(''name'', PStr ''urgent'')]"
        and b = True and q' = "[]"] h1 h2
    by (simp add: noko_example_def transport_example_def)
  have 2: "map_of [(''billable'', PStr ''false'')] ''billable'' = Some (PStr ''false'')
     \<and> list_tags noko_example [(''billable'', PBool False)] []
       = (Inr (PList [PDict [(''id'', PInt 5)]]),
          [\<lparr>path = ''tags'', http_method = GET,
            query_params = Some [(''billable'', PStr ''false'')], post_args = None\<rparr>])"
    using t [where kwargs = "[(''billable'', PBool False)]"
        and q = "[(''billable'', PStr ''false'')]" and b = False and q' = "[]"] h5
    by (simp add: noko_example_def transport_example_def)
  have 3: "list_entries noko_example [(''billable'', PBool True), (''invoiced'', PBool True)] []
       = (Inr (PList [PDict [(''id'', PInt 5)]]),
          [\<lparr>path = ''entries'', http_method = GET,
            query_params = Some [(''invoiced'', PStr ''true''), (''billable'', PStr ''true'')],
            post_args = None\<rparr>])"
    using t [where kwargs = "[(''billable'', PBool True), (''invoiced'', PBool True)]"
        and q = "[]" and b = True
        and q' = "[(''invoiced'', PStr ''true''), (''billable'', PStr ''true'')]"] h6
    by (simp add: noko_example_def transport_example_def)
  have 4: "list_entries noko_example [] []
       = (Inr (PList [PDict [(''id'', PInt 5)]]),
          [\<lparr>path = ''entries'', http_method = GET, query_params = Some [],
            post_args = None\<rparr>])
     \<and> get_all_entries_for_tag noko_example (IntId 5) [] []
       = (Inr (PList [PDict [(''id'', PInt 5)]]),
          [\<lparr>path = ''tags/5/entries'', http_method = GET, query_params = Some [],
            post_args = None\<rparr>])"
    using t [where kwargs = "[]" and q = "[]" and b = True and q' = "[]"] h3 h4
    by (simp add: noko_example_def transport_example_def str_int_values)
  show ?thesis using h1 h2 h3 h4 h5 h6 1 2 3 4 by simp
qed

text \<open>
  C7. With \<^verbatim>\<open>approved_at\<close> absent, \<^verbatim>\<open>mark_as_approved\<close> sends the reading of the clock
  at the call, rendered as \<^verbatim>\<open>YYYY-MM-DDTHH:MM:SSZ\<close>, on the per-record path and on the bulk
  path alike; that string parses back to the clock reading. A datetime value is sent as its
  rendering and an accepted string as it is. For any helpers, a call either sends nothing (a
  helper failed) or sends one PUT whose body holds \<^verbatim>\<open>approved_at\<close> with the normalised
  string.
\<close>

theorem approved_at_defaults_to_now:
  assumes "valid_datetime now" and "list_to_list_of_integers xs = Inr ns"
  shows "snd (mark_as_approved (noko tokens now T) (Scalar i) PNone log) =
           log @ [\<lparr>path = ''entries/'' @ format_id i @ ''/approved'', http_method = PUT,
                    query_params = None,
                    post_args = Some [(''approved_at'', PStr (strftime_timestamp now))]\<rparr>]
       \<and> snd (mark_as_approved (noko tokens now T) (IdList xs) PNone log) =
           log @ [\<lparr>path = ''entries/approved'', http_method = PUT, query_params = None,
                    post_args = Some [(''approved_at'', PStr (strftime_timestamp now)),
                                      (''entry_ids'', PList (map PInt ns))]\<rparr>]
       \<and> strptime_timestamp (strftime_timestamp now) = Some now
       \<and> snd (mark_as_approved (noko tokens now T) (Scalar i) (PDateTime dt) log) =
           log @ [\<lparr>path = ''entries/'' @ format_id i @ ''/approved'', http_method = PUT,
                    query_params = None,
                    post_args = Some [(''approved_at'', PStr (strftime_timestamp dt))]\<rparr>]
       \<and> (strptime_timestamp s = Some dt' \<longrightarrow>
            snd (mark_as_approved (noko tokens now T) (Scalar i) (PStr s) log) =
              log @ [\<lparr>path = ''entries/'' @ format_id i @ ''/approved'', http_method = PUT,
                       query_params = None,
                       post_args = Some [(''approved_at'', PStr s)]\<rparr>])
       \<and> (snd (mark_as_approved D e a log) = log
          \<or> (\<exists>req b ts. snd (mark_as_approved D e a log) = log @ [req]
                \<and> d_timestamp_to_string D a = Inr ts
                \<and> http_method req = PUT \<and> post_args req = Some b
                \<and> map_of b ''approved_at'' = Some (PStr ts)))"
proof -
  have 1: "snd (mark_as_approved (noko tokens now T) (Scalar i) PNone log) =
           log @ [\<lparr>path = ''entries/'' @ format_id i @ ''/approved'', http_method = PUT,
                    query_params = None,
                    post_args = Some [(''approved_at'', PStr (strftime_timestamp now))]\<rparr>]"
    by (simp add: mark_as_approved_def noko_def timestamp_to_string_def fetch_json_stmt_snd
        Let_def)
  have 2: "snd (mark_as_approved (noko tokens now T) (IdList xs) PNone log) =
           log @ [\<lparr>path = ''entries/approved'', http_method = PUT, query_params = None,
                    post_args = Some [(''approved_at'', PStr (strftime_timestamp now)),
                                      (''entry_ids'', PList (map PInt ns))]\<rparr>]"
    using assms(2)
    by (simp add: mark_as_approved_def noko_def timestamp_to_string_def fetch_json_stmt_snd
        Let_def)
  have 3: "strptime_timestamp (strftime_timestamp now) = Some now"
    using assms(1) by (rule strptime_strftime_timestamp)
  have 4: "snd (mark_as_approved (noko tokens now T) (Scalar i) (PDateTime dt) log) =
           log @ [\<lparr>path = ''entries/'' @ format_id i @ ''/approved'', http_method = PUT,
                    query_params = None,
                    post_args = Some [(''approved_at'', PStr (strftime_timestamp dt))]\<rparr>]"
    by (simp add: mark_as_approved_def noko_def timestamp_to_string_def fetch_json_stmt_snd
        Let_def)
  have 5: "strptime_timestamp s = Some dt' \<longrightarrow>
            snd (mark_as_approved (noko tokens now T) (Scalar i) (PStr s) log) =
              log @ [\<lparr>path = ''entries/'' @ format_id i @ ''/approved'', http_method = PUT,
                       query_params = None,
                       post_args = Some [(''approved_at'', PStr s)]\<rparr>]"
    by (simp add: mark_as_approved_def noko_def timestamp_to_string_def fetch_json_stmt_snd
        Let_def)
  show ?thesis using 1 2 3 4 5 mark_as_approved_body [of D e a log] by blast
qed

theorem approved_at_defaults_to_now_witness:
  "valid_datetime clock_example
   \<and> list_to_list_of_integers [PInt 5, PStr ''6''] = Inr [5, 6]
   \<and> snd (mark_as_approved noko_example (Scalar (IntId 5)) PNone [])
       = [\<lparr>path = ''entries/5/approved'', http_method = PUT, query_params = None,
           post_args = Some [(''approved_at'', PStr ''2026-11-03T10:00:07Z'')]\<rparr>]
   \<and> snd (mark_as_approved noko_example (IdList [PInt 5, PStr ''6'']) PNone [])
       = [\<lparr>path = ''entries/approved'', http_method = PUT, query_params = None,
           post_args = Some [(''approved_at'', PStr ''2026-11-03T10:00:07Z''),
                             (''entry_ids'', PList [PInt 5, PInt 6])]\<rparr>]
   \<and> strptime_timestamp ''2026-11-03T10:00:07Z'' = Some clock_example
   \<and> strptime_timestamp ''2024-02-29T12:30:45Z''
       = Some \<lparr>year = 2024, month = 2, day = 29, hour = 12, minute = 30, second = 45\<rparr>
   \<and> snd (mark_as_approved noko_example (Scalar (IntId 5)) (PStr ''2024-02-29T12:30:45Z'') [])
       = [\<lparr>path = ''entries/5/approved'', http_method = PUT, query_params = None,
           post_args = Some [(''approved_at'', PStr ''2024-02-29T12:30:45Z'')]\<rparr>]"
proof -
  let ?dt = "\<lparr>year = 2024, month = 2, day = 29, hour = 12, minute = 30, second = 45\<rparr>"
  have h1: "valid_datetime clock_example" by (rule example_dates)
  have h2: "list_to_list_of_integers [PInt 5, PStr ''6''] = Inr [5, 6]" by (rule example_ids)
  have h3: "strptime_timestamp ''2024-02-29T12:30:45Z'' = Some ?dt" by (rule example_dates)
  from approved_at_defaults_to_now
    [OF h1 h2, of "[''and'']" transport_example "IntId 5" "[]" ?dt "''2024-02-29T12:30:45Z''" ?dt]
  show ?thesis using h1 h2 h3
    by (simp add: noko_example_def example_strftime str_int_values)
qed

text \<open>
  C8. In \<^verbatim>\<open>mark_as_invoiced\<close>, \<^verbatim>\<open>mark_as_approved\<close> and \<^verbatim>\<open>mark_as_unapproved\<close>, a list
  goes to the bulk path with \<^verbatim>\<open>entry_ids\<close> in the body, and any other argument goes to the
  per-record path, interpolated as it is, with no \<^verbatim>\<open>entry_ids\<close> in the body. A per-record
  path is never one of the bulk paths, so the bulk path is taken exactly for lists. A
  comma-separated string such as \<^verbatim>\<open>"5,6"\<close> is not a list: it ends up inside the path.
\<close>

theorem bulk_endpoint_iff_list:
  assumes "d_date_to_string D date = Inr d"
    and "d_timestamp_to_string D approved_at = Inr ts"
    and "d_list_to_list_of_integers D xs = Inr ns"
  shows "snd (mark_as_invoiced D (Scalar i) date log) =
           log @ [\<lparr>path = ''entries/'' @ format_id i @ ''/mark_as_invoiced'',
                    http_method = PUT, query_params = None,
                    post_args = Some [(''date'', PStr d)]\<rparr>]
       \<and> snd (mark_as_invoiced D (IdList xs) date log) =
           log @ [\<lparr>path = ''entries/mark_as_invoiced'',
                    http_method = PUT, query_params = None,
                    post_args = Some [(''date'', PStr d),
                                      (''entry_ids'', PList (map PInt ns))]\<rparr>]
       \<and> snd (mark_as_approved D (Scalar i) approved_at log) =
           log @ [\<lparr>path = ''entries/'' @ format_id i @ ''/approved'',
                    http_method = PUT, query_params = None,
                    post_args = Some [(''approved_at'', PStr ts)]\<rparr>]
       \<and> snd (mark_as_approved D (IdList xs) approved_at log) =
           log @ [\<lparr>path = ''entries/approved'',
                    http_method = PUT, query_params = None,
                    post_args = Some [(''approved_at'', PStr ts),
                                      (''entry_ids'', PList (map PInt ns))]\<rparr>]
       \<and> snd (mark_as_unapproved D (Scalar i) log) =
           log @ [\<lparr>path = ''entries/'' @ format_id i @ ''/unapproved'',
                    http_method = PUT, query_params = None,
                    post_args = Some []\<rparr>]
       \<and> snd (mark_as_unapproved D (IdList xs) log) =
           log @ [\<lparr>path = ''entries/unapproved'',
                    http_method = PUT, query_params = None,
                    post_args = Some [(''entry_ids'', PList (map PInt ns))]\<rparr>]
       \<and> format_id (StrId s) = s
       \<and> ''entries/'' @ format_id i @ ''/mark_as_invoiced'' \<noteq> ''entries/mark_as_invoiced''
       \<and> ''entries/'' @ format_id i @ ''/approved'' \<noteq> ''entries/approved''
       \<and> ''entries/'' @ format_id i @ ''/unapproved'' \<noteq> ''entries/unapproved''"
proof -
  have neq: "\<And>b. ''entries/'' @ format_id i @ CHR ''/'' # b \<noteq> ''entries/'' @ b"
    by (rule singular_path_neq_bulk)
  have n1: "''entries/'' @ format_id i @ ''/mark_as_invoiced'' \<noteq> ''entries/mark_as_invoiced''"
    using neq [of "''mark_as_invoiced''"] by simp
  have n2: "''entries/'' @ format_id i @ ''/approved'' \<noteq> ''entries/approved''"
    using neq [of "''approved''"] by simp
  have n3: "''entries/'' @ format_id i @ ''/unapproved'' \<noteq> ''entries/unapproved''"
    using neq [of "''unapproved''"] by simp
  have inv: "snd (mark_as_invoiced D (Scalar i) date log) =
           log @ [\<lparr>path = ''entries/'' @ format_id i @ ''/mark_as_invoiced'',
                    http_method = PUT, query_params = None,
                    post_args = Some [(''date'', PStr d)]\<rparr>]
       \<and> snd (mark_as_invoiced D (IdList xs) date log) =
           log @ [\<lparr>path = ''entries/mark_as_invoiced'',
                    http_method = PUT, query_params = None,
                    post_args = Some [(''date'', PStr d),
                                      (''entry_ids'', PList (map PInt ns))]\<rparr>]"
    using assms by (simp add: mark_as_invoiced_def fetch_json_stmt_snd Let_def)
  have app: "snd (mark_as_approved D (Scalar i) approved_at log) =
           log @ [\<lparr>path = ''entries/'' @ format_id i @ ''/approved'',
                    http_method = PUT, query_params = None,
                    post_args = Some [(''approved_at'', PStr ts)]\<rparr>]
       \<and> snd (mark_as_approved D (IdList xs) approved_at log) =
           log @ [\<lparr>path = ''entries/approved'',
                    http_method = PUT, query_params = None,
                    post_args = Some [(''approved_at'', PStr ts),
                                      (''entry_ids'', PList (map PInt ns))]\<rparr>]"
    using assms by (simp add: mark_as_approved_def fetch_json_stmt_snd Let_def)
  have unapp: "snd (mark_as_unapproved D (Scalar i) log) =
           log @ [\<lparr>path = ''entries/'' @ format_id i @ ''/unapproved'',
                    http_method = PUT, query_params = None,
                    post_args = Some []\<rparr>]
       \<and> snd (mark_as_unapproved D (IdList xs) log) =
           log @ [\<lparr>path = ''entries/unapproved'',
                    http_method = PUT, query_params = None,
                    post_args = Some [(''entry_ids'', PList (map PInt ns))]\<rparr>]"
    using assms by (simp add: mark_as_unapproved_def fetch_json_stmt_snd Let_def)
  show ?thesis using inv app unapp n1 n2 n3 by simp
qed

theorem bulk_endpoint_iff_list_witness:
  "d_date_to_string noko_example (PStr ''2024-01-01'') = Inr ''2024-01-01''
   \<and> d_timestamp_to_string noko_example (PStr ''2024-02-29T12:30:45Z'')
       = Inr ''2024-02-29T12:30:45Z''
   \<and> d_list_to_list_of_integers noko_example [PInt 5, PStr ''6''] = Inr [5, 6]
   \<and> snd (mark_as_invoiced noko_example (Scalar (StrId ''5,6'')) (PStr ''2024-01-01'') [])
       = [\<lparr>path = ''entries/5,6/mark_as_invoiced'', http_method = PUT, query_params = None,
           post_args = Some [(''date'', PStr ''2024-01-01'')]\<rparr>]
   \<and> snd (mark_as_approved noko_example (Scalar (StrId ''5,6''))
            (PStr ''2024-02-29T12:30:45Z'') [])
       = [\<lparr>path = ''entries/5,6/approved'', http_method = PUT, query_params = None,
           post_args = Some [(''approved_at'', PStr ''2024-02-29T12:30:45Z'')]\<rparr>]
   \<and> snd (mark_as_unapproved noko_example (Scalar (StrId ''5,6'')) [])
       = [\<lparr>path = ''entries/5,6/unapproved'', http_method = PUT, query_params = None,
           post_args = Some []\<rparr>]
   \<and> snd (mark_as_unapproved noko_example (IdList [PInt 5, PStr ''6'']) [])
       = [\<lparr>path = ''entries/unapproved'', http_method = PUT, query_params = None,
           post_args = Some [(''entry_ids'', PList [PInt 5, PInt 6])]\<rparr>]"
proof -
  let ?D = "noko_example"
  have d1: "d_date_to_string ?D (PStr ''2024-01-01'') = Inr ''2024-01-01''"
    by (simp add: noko_example_fields example_dates)
  have d2: "d_timestamp_to_string ?D (PStr ''2024-02-29T12:30:45Z'') = Inr ''2024-02-29T12:30:45Z''"
    by (simp add: noko_example_fields timestamp_to_string_def example_dates)
  have d3: "d_list_to_list_of_integers ?D [PInt 5, PStr ''6''] = Inr [5, 6]"
    by (simp only: noko_example_fields example_ids)
  from bulk_endpoint_iff_list [OF d1 d2 d3, of "StrId ''5,6''" "[]" "''5,6''"] d1 d2 d3
  show ?thesis by simp
qed

text \<open>
  C9. When the helpers succeed and the transport answers, whatever it answers, the three
  status changes, the three deletions and the merge return \<^verbatim>\<open>None\<close>.
\<close>

theorem status_changes_return_None:
  assumes "\<And>req. transport D req = Inr (resp req)"
    and "d_date_to_string D date = Inr d"
    and "d_timestamp_to_string D approved_at = Inr ts"
    and "d_list_to_list_of_integers D xs = Inr ns"
  shows "fst (mark_as_invoiced D (Scalar i) date log) = Inr PNone
       \<and> fst (mark_as_invoiced D (IdList xs) date log) = Inr PNone
       \<and> fst (mark_as_approved D (Scalar i) approved_at log) = Inr PNone
       \<and> fst (mark_as_approved D (IdList xs) approved_at log) = Inr PNone
       \<and> fst (mark_as_unapproved D (Scalar i) log) = Inr PNone
       \<and> fst (mark_as_unapproved D (IdList xs) log) = Inr PNone
       \<and> fst (delete_entry D i log) = Inr PNone
       \<and> fst (delete_single_tag D i log) = Inr PNone
       \<and> fst (delete_tags D xs log) = Inr PNone
       \<and> fst (merge_tag_into_this_tag D i j log) = Inr PNone"
  using assms
  by (simp add: mark_as_invoiced_def mark_as_approved_def mark_as_unapproved_def
      delete_entry_def delete_single_tag_def delete_tags_def merge_tag_into_this_tag_def
      fetch_json_stmt_fst Let_def)

theorem status_changes_return_None_witness:
  "transport noko_example
        \<lparr>path = ''tags/delete'', http_method = DELETE, query_params = None,
         post_args = Some [(''tag_ids'', PList [PInt 5, PInt 6])]\<rparr>
       = Inr (PList [PDict [(''id'', PInt 5)]])
   \<and> d_date_to_string noko_example (PStr ''2024-01-01'') = Inr ''2024-01-01''
   \<and> d_timestamp_to_string noko_example (PStr ''2024-02-29T12:30:45Z'')
       = Inr ''2024-02-29T12:30:45Z''
   \<and> d_list_to_list_of_integers noko_example [PInt 5, PStr ''6''] = Inr [5, 6]
   \<and> fst (mark_as_invoiced noko_example (Scalar (IntId 5)) (PStr ''2024-01-01'') []) = Inr PNone
   \<and> fst (mark_as_invoiced noko_example (IdList [PInt 5, PStr ''6'']) (PStr ''2024-01-01'') [])
       = Inr PNone
   \<and> fst (mark_as_approved noko_example (Scalar (IntId 5)) (PStr ''2024-02-29T12:30:45Z'') [])
       = Inr PNone
   \<and> fst (mark_as_approved noko_example (IdList [PInt 5, PStr ''6''])
            (PStr ''2024-02-29T12:30:45Z'') []) = Inr PNone
   \<and> fst (mark_as_unapproved noko_example (Scalar (IntId 5)) []) = Inr PNone
   \<and> fst (mark_as_unapproved noko_example (IdList [PInt 5, PStr ''6'']) []) = Inr PNone
   \<and> fst (delete_entry noko_example (IntId 5) []) = Inr PNone
   \<and> fst (delete_single_tag noko_example (IntId 5) []) = Inr PNone
   \<and> fst (delete_tags noko_example [PInt 5, PStr ''6''] []) = Inr PNone
   \<and> fst (merge_tag_into_this_tag noko_example (IntId 5) (IntId 6) []) = Inr PNone"
proof -
  let ?D = "noko_example"
  have t: "\<And>req. transport ?D req = Inr ((\<lambda>r. PList [PDict [(''id'', PInt 5)]]) req)"
    by (simp add: noko_example_fields transport_example_def)
  have d1: "d_date_to_string ?D (PStr ''2024-01-01'') = Inr ''2024-01-01''"
    by (simp add: noko_example_fields example_dates)
  have d2: "d_timestamp_to_string ?D (PStr ''2024-02-29T12:30:45Z'') = Inr ''2024-02-29T12:30:45Z''"
    by (simp add: noko_example_fields timestamp_to_string_def example_dates)
  have d3: "d_list_to_list_of_integers ?D [PInt 5, PStr ''6''] = Inr [5, 6]"
    by (simp only: noko_example_fields example_ids)
  from status_changes_return_None [OF t d1 d2 d3, of "IntId 5" "[]" "IntId 6"] t d1 d2 d3
  show ?thesis by simp
qed

text \<open>
  C10. \<^verbatim>\<open>merge_tag_into_this_tag\<close> always issues exactly one PUT to
  \<^verbatim>\<open>tags/{tag_id}/merge\<close> with body \<^verbatim>\<open>{"tag_id": tag_to_merge_id}\<close>. The identifier to
  merge is placed in the body as the caller gave it, a string as a string and an integer as
  an integer, and the identifier in the path is interpolated without any check.
\<close>

theorem merge_tag_into_this_tag_request:
  "merge_tag_into_this_tag D tag_id tag_to_merge_id log =
     (case transport D \<lparr>path = ''tags/'' @ format_id tag_id @ ''/merge'', http_method = PUT,
                         query_params = None,
                         post_args = Some [(''tag_id'', py_of_id tag_to_merge_id)]\<rparr> of
        Inl e \<Rightarrow> Inl e | Inr r \<Rightarrow> Inr PNone,
      log @ [\<lparr>path = ''tags/'' @ format_id tag_id @ ''/merge'', http_method = PUT,
               query_params = None,
               post_args = Some [(''tag_id'', py_of_id tag_to_merge_id)]\<rparr>])
   \<and> py_of_id (StrId s) = PStr s \<and> py_of_id (IntId n) = PInt n \<and> format_id (StrId s) = s"
  by (simp add: merge_tag_into_this_tag_def fetch_json_stmt_eq)

theorem merge_tag_into_this_tag_request_witness:
  "merge_tag_into_this_tag noko_example (IntId 12) (StrId ''abc'') [] =
     (Inr PNone,
      [\<lparr>path = ''tags/12/merge'', http_method = PUT, query_params = None,
        post_args = Some [(''tag_id'', PStr ''abc'')]\<rparr>])
   \<and> merge_tag_into_this_tag noko_example (StrId ''x y'') (IntId 12) [] =
     (Inr PNone,
      [\<lparr>path = ''tags/x y/merge'', http_method = PUT, query_params = None,
        post_args = Some [(''tag_id'', PInt 12)]\<rparr>])"
  using merge_tag_into_this_tag_request [of noko_example "IntId 12" "StrId ''abc''" "[]"]
    merge_tag_into_this_tag_request [of noko_example "StrId ''x y''" "IntId 12" "[]"]
  by (simp add: noko_example_fields transport_example_def str_int_values)

end
